theory Spec2Isabelle
  imports Complex_Main "HOL-Library.AList"
begin

section \<open>Python values and exceptions\<close>

text \<open>
  The patient record of \<^verbatim>\<open>backend/mirai_inference.py\<close> and \<^verbatim>\<open>app.py\<close> is a Python
  dict from attribute names to values that are strings, numbers or \<^verbatim>\<open>None\<close>.
  Python's unbounded \<^verbatim>\<open>int\<close> is \<^typ>\<open>int\<close>; a \<^verbatim>\<open>float\<close> is idealised as a
  \<^typ>\<open>real\<close> (no rounding, no NaN, no infinities).
\<close>

datatype pyval = PNone | PStr string | PInt int | PFloat real

text \<open>Exceptions are values; a function that may raise returns \<open>py_error + 'a\<close>.\<close>

datatype py_error =
    KeyError string
  | AttributeError
  | TypeError
  | ValueError
  | FileNotFoundError
  | UnpicklingError
  | JSONDecodeError
  | PredictorRaised string

definition bind_e :: "py_error + 'a \<Rightarrow> ('a \<Rightarrow> py_error + 'b) \<Rightarrow> py_error + 'b" where
  "bind_e m f = (case m of Inl e \<Rightarrow> Inl e | Inr x \<Rightarrow> f x)"

text \<open>\<^verbatim>\<open>d.get(k, default)\<close> on a dict.\<close>

definition dict_get :: "('k \<rightharpoonup> 'v) \<Rightarrow> 'k \<Rightarrow> 'v \<Rightarrow> 'v" where
  "dict_get d k dflt = (case d k of None \<Rightarrow> dflt | Some v \<Rightarrow> v)"

text \<open>Python truthiness: \<^verbatim>\<open>None\<close>, the empty string and a zero number are falsy.\<close>

fun truthy :: "pyval \<Rightarrow> bool" where
  "truthy PNone = False"
| "truthy (PStr s) = (s \<noteq> [])"
| "truthy (PInt i) = (i \<noteq> 0)"
| "truthy (PFloat r) = (r \<noteq> 0)"

fun is_numeric :: "pyval \<Rightarrow> bool" where
  "is_numeric (PInt i) = True"
| "is_numeric (PFloat r) = True"
| "is_numeric v = False"

text \<open>Python's \<^verbatim>\<open>==\<close> on these values: an int and a float compare by value.\<close>

fun py_eq :: "pyval \<Rightarrow> pyval \<Rightarrow> bool" where
  "py_eq (PInt i) (PFloat r) = (of_int i = r)"
| "py_eq (PFloat r) (PInt i) = (r = of_int i)"
| "py_eq v w = (v = w)"

text \<open>
  \<^verbatim>\<open>str.lower()\<close>. A string is a list of bytes here, and only the ASCII capitals are
  lowered; no character outside ASCII lowers to one of \<^verbatim>\<open>m a l e\<close>, so the comparison
  with \<^verbatim>\<open>'male'\<close> is the one Python makes.
\<close>

definition lower_char :: "char \<Rightarrow> char" where
  "lower_char c =
     (case map_of (zip ''ABCDEFGHIJKLMNOPQRSTUVWXYZ'' ''abcdefghijklmnopqrstuvwxyz'') c of
        None \<Rightarrow> c
      | Some l \<Rightarrow> l)"

definition str_lower :: "string \<Rightarrow> string" where
  "str_lower s = map lower_char s"

text \<open>\<^verbatim>\<open>s.count('4')\<close>: the number of occurrences of the character.\<close>

definition str_count :: "string \<Rightarrow> char \<Rightarrow> int" where
  "str_count s c = int (count_list s c)"

section \<open>Feature normalisers\<close>

text \<open>
  \<^verbatim>\<open>
  def preprocess_gender(self, gender):
      if isinstance(gender, str):
          return 1 if gender.lower() == 'male' else 0
      return gender
  \<close>
\<close>

fun preprocess_gender :: "pyval \<Rightarrow> pyval" where
  "preprocess_gender (PStr s) = PInt (if str_lower s = ''male'' then 1 else 0)"
| "preprocess_gender v = v"

text \<open>
  \<^verbatim>\<open>
  def preprocess_apoe4(self, genotype):
      if isinstance(genotype, str):
          return genotype.count('4')
      return genotype if genotype else 0
  \<close>
\<close>

fun preprocess_apoe4 :: "pyval \<Rightarrow> pyval" where
  "preprocess_apoe4 (PStr s) = PInt (str_count s (CHR ''4''))"
| "preprocess_apoe4 v = (if truthy v then v else PInt 0)"

text \<open>
  \<^verbatim>\<open>
  def parse_apoe4(genotype):
      if not genotype:
          return 0
      return genotype.count('4')
  \<close>
  A truthy value that is not a string has no \<^verbatim>\<open>count\<close> method.
\<close>

fun parse_apoe4 :: "pyval \<Rightarrow> py_error + pyval" where
  "parse_apoe4 (PStr s) = (if s = [] then Inr (PInt 0) else Inr (PInt (str_count s (CHR ''4''))))"
| "parse_apoe4 v = (if truthy v then Inl AttributeError else Inr (PInt 0))"

section \<open>Artifact store\<close>

text \<open>
  A patient record is a dict. A stage's feature row, the single-row data frame handed to
  a predictor, keeps its columns in insertion order, so it is an association list built
  with \<^const>\<open>AList.update\<close>, which is Python's dict assignment: a new key goes last, an
  old key keeps its place.
\<close>

type_synonym patient = "string \<rightharpoonup> pyval"

type_synonym feature_row = "(string \<times> pyval) list"

text \<open>
  An unpickled stage predictor is opaque. It is modelled by what
  \<^verbatim>\<open>obj.predict_proba(X)[0, 1]\<close> does on a feature row: it raises, or it gives the
  positive-class probability, a NumPy scalar in the precision of the predictor's output
  array (double precision for most estimators, single precision for some).
\<close>

datatype np_scalar = Float64 real | Float32 real

text \<open>\<^verbatim>\<open>float(scalar)\<close>: the value the scalar holds.\<close>

fun np_value :: "np_scalar \<Rightarrow> real" where
  "np_value (Float64 x) = x"
| "np_value (Float32 x) = x"

text \<open>
  \<^verbatim>\<open>scalar >= t\<close> for a Python float \<open>t\<close>. A double-precision scalar is compared with
  \<open>t\<close> itself. For a single-precision scalar NumPy first converts \<open>t\<close>; how it does
  so depends on the NumPy in use and is the parameter \<open>weak32\<close>: rounding to single
  precision under NumPy 2, no change (the comparison is made in double precision) under
  NumPy 1.
\<close>

fun np_cut :: "(real \<Rightarrow> real) \<Rightarrow> np_scalar \<Rightarrow> real \<Rightarrow> real" where
  "np_cut weak32 (Float64 x) t = t"
| "np_cut weak32 (Float32 x) t = weak32 t"

definition np_ge :: "(real \<Rightarrow> real) \<Rightarrow> np_scalar \<Rightarrow> real \<Rightarrow> bool" where
  "np_ge weak32 s t = (np_value s \<ge> np_cut weak32 s t)"

type_synonym predictor = "feature_row \<Rightarrow> py_error + np_scalar"

text \<open>
  The JSON documents of the store: a feature-list file holds a list of strings, a
  threshold file an object with numeric members. Other JSON shapes are outside the model.
\<close>

datatype json = JList "string list" | JObj "(string \<times> real) list"

datatype artifact = Pipeline predictor | Document json

text \<open>\<^verbatim>\<open>self.artifacts\<close>: a dict from artifact name to the loaded object.\<close>

type_synonym artifacts = "(string \<times> artifact) list"

text \<open>
  The file system as \<^verbatim>\<open>load_artifacts\<close> sees it: a path exists or not, and an
  existing file is a pickle of a predictor, a JSON text, or something neither
  \<^verbatim>\<open>pickle.load\<close> nor \<^verbatim>\<open>json.load\<close> accepts.
\<close>

datatype fs_file = Pickled predictor | JsonText json | Corrupt

fun pickle_load :: "fs_file \<Rightarrow> py_error + artifact" where
  "pickle_load (Pickled p) = Inr (Pipeline p)"
| "pickle_load f = Inl UnpicklingError"

fun json_load :: "fs_file \<Rightarrow> py_error + artifact" where
  "json_load (JsonText j) = Inr (Document j)"
| "json_load f = Inl JSONDecodeError"

text \<open>\<^verbatim>\<open>os.path.join(a, b)\<close> for a relative \<open>b\<close>.\<close>

definition os_path_join :: "string \<Rightarrow> string \<Rightarrow> string" where
  "os_path_join a b =
     (if a = [] then b else if last a = CHR ''/'' then a @ b else a @ CHR ''/'' # b)"

definition endswith :: "string \<Rightarrow> string \<Rightarrow> bool" where
  "endswith s suf = (length suf \<le> length s \<and> drop (length s - length suf) s = suf)"

text \<open>\<^verbatim>\<open>s.replace(old, new)\<close>: every occurrence, left to right, without overlap.\<close>

function str_replace :: "string \<Rightarrow> string \<Rightarrow> string \<Rightarrow> string" where
  "str_replace [] old new = (if old = [] then new else [])"
| "str_replace (c # cs) old new =
     (if old = [] then new @ c # str_replace cs old new
      else if take (length old) (c # cs) = old
        then new @ str_replace (drop (length old) (c # cs)) old new
      else c # str_replace cs old new)"
  by pat_completeness auto
termination
  by (relation "measure (\<lambda>(s, old, new). length s)") (auto simp: Suc_le_eq)

definition artifact_files :: "string list" where
  "artifact_files =
     [''stage1_pipeline.pkl'', ''stage2_pipeline.pkl'', ''stage3_pipeline.pkl'',
      ''stage1_features.json'', ''stage2_features.json'', ''stage3_features.json'',
      ''stage1_threshold.json'', ''stage2_threshold.json'']"

text \<open>
  One turn of the loop of \<^verbatim>\<open>load_artifacts\<close>:
  \<^verbatim>\<open>
  path = os.path.join(self.artifacts_dir, fname)
  if os.path.exists(path):
      if fname.endswith('.pkl'):
          with open(path, 'rb') as f:
              self.artifacts[fname.replace('.pkl', '')] = pickle.load(f)
      elif fname.endswith('.json'):
          with open(path, 'r') as f:
              self.artifacts[fname.replace('.json', '')] = json.load(f)
  \<close>
\<close>

definition load_one :: "(string \<rightharpoonup> fs_file) \<Rightarrow> string \<Rightarrow> artifacts \<Rightarrow> string \<Rightarrow> py_error + artifacts" where
  "load_one fs dir arts fname =
     (case fs (os_path_join dir fname) of
        None \<Rightarrow> Inr arts
      | Some f \<Rightarrow>
          if endswith fname ''.pkl'' then
            bind_e (pickle_load f)
              (\<lambda>obj. Inr (AList.update (str_replace fname ''.pkl'' []) obj arts))
          else if endswith fname ''.json'' then
            bind_e (json_load f)
              (\<lambda>obj. Inr (AList.update (str_replace fname ''.json'' []) obj arts))
          else Inr arts)"

fun load_loop :: "(string \<rightharpoonup> fs_file) \<Rightarrow> string \<Rightarrow> string list \<Rightarrow> artifacts \<Rightarrow> py_error + artifacts" where
  "load_loop fs dir [] arts = Inr arts"
| "load_loop fs dir (fname # rest) arts =
     bind_e (load_one fs dir arts fname) (load_loop fs dir rest)"

text \<open>
  \<^verbatim>\<open>__init__\<close> sets \<^verbatim>\<open>self.artifacts = {}\<close> and calls \<^verbatim>\<open>load_artifacts\<close>, which
  ends with
  \<^verbatim>\<open>
  if not self.artifacts:
      raise FileNotFoundError(f"No artifacts found in {self.artifacts_dir}. ...")
  \<close>
\<close>

definition load_artifacts :: "(string \<rightharpoonup> fs_file) \<Rightarrow> string \<Rightarrow> py_error + artifacts" where
  "load_artifacts fs dir =
     bind_e (load_loop fs dir artifact_files [])
       (\<lambda>arts. case arts of [] \<Rightarrow> Inl FileNotFoundError | _ # _ \<Rightarrow> Inr arts)"

section \<open>Cascade engine\<close>

text \<open>
  The dict returned by \<^verbatim>\<open>predict\<close> and by \<^verbatim>\<open>mock_prediction\<close>. The key
  \<^verbatim>\<open>final_risk_category\<close> is set by \<^verbatim>\<open>predict\<close> only, so the field is optional.
  An entry of \<^verbatim>\<open>top_factors\<close> is an f-string \<^verbatim>\<open>f"label{value}"\<close>; it is kept as the
  label and the interpolated value, since the text Python prints for a float is outside
  the model.
\<close>

record prediction =
  final_risk_score :: real
  final_risk_category :: "string option"
  stage1_prob :: real
  stage2_prob :: real
  stage3_prob :: real
  stage1_risk :: string
  stage2_risk :: string
  stage3_risk :: string
  top_factors :: "(string \<times> pyval) list"

text \<open>
  \<^verbatim>\<open>self.artifacts.get(key, default)\<close> used as the iterable of feature names. Iterating
  a JSON object yields its keys. A pickled object under such a key cannot come out of
  \<^verbatim>\<open>load_artifacts\<close>; it is taken not to be iterable.
\<close>

definition artifact_features :: "artifacts \<Rightarrow> string \<Rightarrow> string list \<Rightarrow> py_error + string list" where
  "artifact_features arts key dflt =
     (case map_of arts key of
        None \<Rightarrow> Inr dflt
      | Some (Document (JList names)) \<Rightarrow> Inr names
      | Some (Document (JObj members)) \<Rightarrow> Inr (map fst members)
      | Some (Pipeline p) \<Rightarrow> Inl TypeError)"

text \<open>\<^verbatim>\<open>{f: patient_data.get(f, 0) for f in features}\<close>\<close>

definition build_row :: "patient \<Rightarrow> string list \<Rightarrow> feature_row" where
  "build_row pd features =
     foldl (\<lambda>row f. AList.update f (dict_get pd f (PInt 0)) row) [] features"

text \<open>
  \<^verbatim>\<open>self.artifacts[key].predict_proba\<close>: a missing key raises \<^verbatim>\<open>KeyError(key)\<close>, and a
  JSON list or dict has no such attribute.
\<close>

definition artifact_pipeline :: "artifacts \<Rightarrow> string \<Rightarrow> py_error + predictor" where
  "artifact_pipeline arts key =
     (case map_of arts key of
        None \<Rightarrow> Inl (KeyError key)
      | Some (Pipeline p) \<Rightarrow> Inr p
      | Some (Document j) \<Rightarrow> Inl AttributeError)"

text \<open>
  \<^verbatim>\<open>self.artifacts.get(key, {}).get('threshold', 0.5)\<close>: a JSON list has no \<^verbatim>\<open>get\<close>.
\<close>

definition artifact_threshold :: "artifacts \<Rightarrow> string \<Rightarrow> py_error + real" where
  "artifact_threshold arts key =
     (case map_of arts key of
        None \<Rightarrow> Inr (5 / 10)
      | Some (Document (JObj members)) \<Rightarrow>
          Inr (case map_of members ''threshold'' of None \<Rightarrow> 5 / 10 | Some t \<Rightarrow> t)
      | Some (Document (JList names)) \<Rightarrow> Inl AttributeError
      | Some (Pipeline p) \<Rightarrow> Inl AttributeError)"

definition stage1_default_features :: "string list" where
  "stage1_default_features =
     [''AGE'', ''PTGENDER'', ''PTEDUCAT'', ''FAQ'', ''EcogPtMem'', ''EcogPtTotal'']"

text \<open>
  Lines 80 to 85 of \<^verbatim>\<open>predict\<close>:
  \<^verbatim>\<open>
  stage1_features = self.artifacts.get('stage1_features', [...])
  X1 = pd.DataFrame([{f: patient_data.get(f, 0) for f in stage1_features}])
  stage1_prob = self.artifacts['stage1_pipeline'].predict_proba(X1)[0, 1]
  stage1_threshold = self.artifacts.get('stage1_threshold', {}).get('threshold', 0.5)
  stage1_risk = 'Elevated' if stage1_prob >= stage1_threshold else 'Low'
  \<close>
\<close>

definition stage1_row :: "artifacts \<Rightarrow> patient \<Rightarrow> py_error + feature_row" where
  "stage1_row arts pd =
     bind_e (artifact_features arts ''stage1_features'' stage1_default_features)
       (\<lambda>features. Inr (build_row pd features))"

definition stage1 ::
  "(real \<Rightarrow> real) \<Rightarrow> artifacts \<Rightarrow> patient \<Rightarrow> py_error + np_scalar \<times> string" where
  "stage1 weak32 arts pd =
     bind_e (stage1_row arts pd) (\<lambda>X1.
     bind_e (artifact_pipeline arts ''stage1_pipeline'') (\<lambda>pipeline.
     bind_e (pipeline X1) (\<lambda>prob.
     bind_e (artifact_threshold arts ''stage1_threshold'') (\<lambda>threshold.
     Inr (prob, if np_ge weak32 prob threshold then ''Elevated'' else ''Low'')))))"

text \<open>
  Lines 88 to 93. The list \<^verbatim>\<open>stage2_features\<close> is fetched and never used; the row is
  \<^verbatim>\<open>{'Stage1_Prob': stage1_prob, 'APOE4': patient_data.get('APOE4', 0)}\<close>.
\<close>

definition stage2_row :: "patient \<Rightarrow> np_scalar \<Rightarrow> feature_row" where
  "stage2_row pd p1 =
     [(''Stage1_Prob'', PFloat (np_value p1)), (''APOE4'', dict_get pd ''APOE4'' (PInt 0))]"

definition stage2 ::
  "(real \<Rightarrow> real) \<Rightarrow> artifacts \<Rightarrow> patient \<Rightarrow> np_scalar \<Rightarrow> py_error + np_scalar \<times> string" where
  "stage2 weak32 arts pd p1 =
     bind_e (artifact_pipeline arts ''stage2_pipeline'') (\<lambda>pipeline.
     bind_e (pipeline (stage2_row pd p1)) (\<lambda>prob.
     bind_e (artifact_threshold arts ''stage2_threshold'') (\<lambda>threshold.
     Inr (prob, if np_ge weak32 prob threshold then ''Elevated'' else ''Low''))))"

text \<open>Lines 96 to 106. The list \<^verbatim>\<open>stage3_features\<close> is fetched and never used.\<close>

definition stage3_row :: "patient \<Rightarrow> np_scalar \<Rightarrow> feature_row" where
  "stage3_row pd p2 =
     [(''Stage2_Prob'', PFloat (np_value p2)),
      (''PTAU'', dict_get pd ''PTAU'' (PInt 0)),
      (''ABETA42'', dict_get pd ''ABETA42'' (PInt 0)),
      (''ABETA40'', dict_get pd ''ABETA40'' (PInt 0)),
      (''NFL'', dict_get pd ''NFL'' (PInt 0))]"

definition stage3 :: "artifacts \<Rightarrow> patient \<Rightarrow> np_scalar \<Rightarrow> py_error + np_scalar" where
  "stage3 arts pd p2 =
     bind_e (artifact_pipeline arts ''stage3_pipeline'') (\<lambda>pipeline.
     pipeline (stage3_row pd p2))"

text \<open>
  Lines 109 to 114, on the scalar \<^verbatim>\<open>stage3_prob\<close>:
  \<^verbatim>\<open>
  if stage3_prob >= 0.7:   final_risk = 'High'
  elif stage3_prob >= 0.4: final_risk = 'Elevated'
  else:                    final_risk = 'Low'
  \<close>
\<close>

definition final_risk :: "(real \<Rightarrow> real) \<Rightarrow> np_scalar \<Rightarrow> string" where
  "final_risk weak32 p =
     (if np_ge weak32 p (7 / 10) then ''High''
      else if np_ge weak32 p (4 / 10) then ''Elevated'' else ''Low'')"

definition cascade_factors :: "patient \<Rightarrow> (string \<times> pyval) list" where
  "cascade_factors pd =
     [(''FAQ Score: '', dict_get pd ''FAQ'' (PStr ''N/A'')),
      (''APOE4 Count: '', dict_get pd ''APOE4'' (PInt 0)),
      (''pTau-217: '', dict_get pd ''PTAU'' (PStr ''Not provided''))]"

text \<open>
  The three stages in order; the first exception ends the call. The returned dict holds
  \<^verbatim>\<open>float(...)\<close> of each stage's scalar.
\<close>

definition cascade :: "(real \<Rightarrow> real) \<Rightarrow> artifacts \<Rightarrow> patient \<Rightarrow> py_error + prediction" where
  "cascade weak32 arts pd =
     bind_e (stage1 weak32 arts pd) (\<lambda>(p1, risk1).
     bind_e (stage2 weak32 arts pd p1) (\<lambda>(p2, risk2).
     bind_e (stage3 arts pd p2) (\<lambda>p3.
     Inr \<lparr>final_risk_score = np_value p3,
          final_risk_category = Some (final_risk weak32 p3),
          stage1_prob = np_value p1,
          stage2_prob = np_value p2,
          stage3_prob = np_value p3,
          stage1_risk = risk1,
          stage2_risk = risk2,
          stage3_risk = final_risk weak32 p3,
          top_factors = cascade_factors pd\<rparr>)))"

text \<open>
  Lines 76 and 77 assign into the caller's dict before anything can fail:
  \<^verbatim>\<open>
  patient_data['PTGENDER'] = self.preprocess_gender(patient_data.get('PTGENDER', 'Male'))
  patient_data['APOE4'] = self.preprocess_apoe4(patient_data.get('APOE4', 0))
  \<close>
\<close>

definition normalise_record :: "patient \<Rightarrow> patient" where
  "normalise_record pd =
     (let pd1 = pd(''PTGENDER'' \<mapsto> preprocess_gender (dict_get pd ''PTGENDER'' (PStr ''Male'')))
      in pd1(''APOE4'' \<mapsto> preprocess_apoe4 (dict_get pd1 ''APOE4'' (PInt 0))))"

text \<open>
  \<^verbatim>\<open>predict\<close> returns the caller's dict as it leaves it, and the result or the
  exception.
\<close>

definition predict ::
  "(real \<Rightarrow> real) \<Rightarrow> artifacts \<Rightarrow> patient \<Rightarrow> patient \<times> (py_error + prediction)" where
  "predict weak32 arts patient_data =
     (let pd = normalise_record patient_data in (pd, cascade weak32 arts pd))"

section \<open>Fallback heuristic predictor\<close>

text \<open>
  \<^verbatim>\<open>int(v)\<close> and \<^verbatim>\<open>float(v)\<close>. \<^verbatim>\<open>None\<close> raises \<^verbatim>\<open>TypeError\<close>; a float is
  truncated towards zero by \<^verbatim>\<open>int\<close>. What Python's literal parser makes of a string
  is a parameter: \<open>None\<close> where it raises \<^verbatim>\<open>ValueError\<close>.
\<close>

definition trunc :: "real \<Rightarrow> int" where
  "trunc r = (if 0 \<le> r then \<lfloor>r\<rfloor> else \<lceil>r\<rceil>)"

fun py_int :: "(string \<Rightarrow> int option) \<Rightarrow> pyval \<Rightarrow> py_error + int" where
  "py_int parse PNone = Inl TypeError"
| "py_int parse (PStr s) = (case parse s of None \<Rightarrow> Inl ValueError | Some i \<Rightarrow> Inr i)"
| "py_int parse (PInt i) = Inr i"
| "py_int parse (PFloat r) = Inr (trunc r)"

fun py_float :: "(string \<Rightarrow> real option) \<Rightarrow> pyval \<Rightarrow> py_error + real" where
  "py_float parse PNone = Inl TypeError"
| "py_float parse (PStr s) = (case parse s of None \<Rightarrow> Inl ValueError | Some r \<Rightarrow> Inr r)"
| "py_float parse (PInt i) = Inr (of_int i)"
| "py_float parse (PFloat r) = Inr r"

text \<open>\<^verbatim>\<open>round(x)\<close> of a float: the nearest integer, a tie going to the even one.\<close>

definition py_round :: "real \<Rightarrow> int" where
  "py_round x =
     (let f = \<lfloor>x\<rfloor>; d = x - of_int f in
      if d < 1 / 2 then f else if d > 1 / 2 then f + 1 else if even f then f else f + 1)"

text \<open>
  Lines 46 to 59 of \<^verbatim>\<open>mock_prediction\<close>: the returned dict, from the clamped score and
  the converted inputs.
\<close>

definition mock_result :: "int \<Rightarrow> real \<Rightarrow> int \<Rightarrow> real \<Rightarrow> prediction" where
  "mock_result score faq apoe4 ptau =
     \<lparr>final_risk_score = of_int score / 100,
      final_risk_category = None,
      stage1_prob = min (of_int score * (8 / 10)) 95 / 100,
      stage2_prob = min (of_int score * (9 / 10)) 98 / 100,
      stage3_prob = of_int score / 100,
      stage1_risk = (if score < 30 then ''Low'' else if score < 60 then ''Elevated'' else ''High''),
      stage2_risk = (if apoe4 > 0 then ''Elevated'' else ''Low''),
      stage3_risk =
        (if ptau > 5 / 10 then ''Elevated'' else if ptau > 0 then ''Normal'' else ''Not Tested''),
      top_factors =
        [(''FAQ Score: '', PFloat faq),
         (''APOE4 Count: '', PInt apoe4),
         (''pTau-217: '', if ptau > 0 then PFloat ptau else PStr ''Not provided'')]\<rparr>"

text \<open>
  \<^verbatim>\<open>
  score = 15
  age = int(data.get('AGE', 65))
  if age > 75: score += 20
  elif age > 65: score += 10
  faq = float(data.get('FAQ', 0))
  score += faq * 1.5
  ecog = float(data.get('EcogPtMem', 1))
  score += (ecog - 1) * 10
  apoe4 = int(data.get('APOE4', 0))
  score += apoe4 * 12
  ptau = float(data.get('PTAU', 0))
  if ptau > 0.6: score += 20
  elif ptau > 0.3: score += 10
  score = min(round(score), 100)
  \<close>
\<close>

definition mock_prediction ::
  "(string \<Rightarrow> int option) \<Rightarrow> (string \<Rightarrow> real option) \<Rightarrow> patient \<Rightarrow> py_error + prediction" where
  "mock_prediction int_of_str float_of_str data =
     (let score0 = (15 :: int) in
      bind_e (py_int int_of_str (dict_get data ''AGE'' (PInt 65))) (\<lambda>age.
      let score1 = (if age > 75 then score0 + 20 else if age > 65 then score0 + 10 else score0) in
      bind_e (py_float float_of_str (dict_get data ''FAQ'' (PInt 0))) (\<lambda>faq.
      let score2 = of_int score1 + faq * (15 / 10) in
      bind_e (py_float float_of_str (dict_get data ''EcogPtMem'' (PInt 1))) (\<lambda>ecog.
      let score3 = score2 + (ecog - 1) * 10 in
      bind_e (py_int int_of_str (dict_get data ''APOE4'' (PInt 0))) (\<lambda>apoe4.
      let score4 = score3 + of_int (apoe4 * 12) in
      bind_e (py_float float_of_str (dict_get data ''PTAU'' (PInt 0))) (\<lambda>ptau.
      let score5 = (if ptau > 6 / 10 then score4 + 20 else if ptau > 3 / 10 then score4 + 10 else score4);
          score = min (py_round score5) 100
      in Inr (mock_result score faq apoe4 ptau)))))))"

text \<open>
  The score as the specification words it, for comparison with the code. It is a
  function of the record's own values (no conversion to integers): base 15, the age
  bonus, \<open>1.5 \<times> FAQ\<close>, \<open>10 \<times> (EcogPtMem - 1)\<close>, \<open>12 \<times> APOE4\<close>, the pTau bonus, then
  \<open>min(round(sum), 100) / 100\<close>. Its rounding is stated on its own, not through the
  code's: the nearest integer (\<^const>\<open>round\<close> takes a tie upwards), and of two equally
  near integers the even one.
\<close>

definition spec_round :: "real \<Rightarrow> int" where
  "spec_round x = (let n = round x in if of_int n - x = 1 / 2 \<and> odd n then n - 1 else n)"

definition spec_age_bonus :: "real \<Rightarrow> real" where
  "spec_age_bonus age = (if age > 75 then 20 else if 65 < age \<and> age \<le> 75 then 10 else 0)"

definition spec_ptau_bonus :: "real \<Rightarrow> real" where
  "spec_ptau_bonus ptau = (if ptau > 6 / 10 then 20 else if 3 / 10 < ptau \<and> ptau \<le> 6 / 10 then 10 else 0)"

definition spec_score :: "real \<Rightarrow> real \<Rightarrow> real \<Rightarrow> real \<Rightarrow> real \<Rightarrow> real" where
  "spec_score age faq ecog apoe4 ptau =
     of_int (min (spec_round (15 + spec_age_bonus age + (15 / 10) * faq + 10 * (ecog - 1)
                                + 12 * apoe4 + spec_ptau_bonus ptau)) 100) / 100"

text \<open>
  The clamped score of \<^verbatim>\<open>mock_prediction\<close> (lines 31 to 44) as a function of the five
  converted inputs, for stating properties; \<open>mock_prediction_eq\<close> below shows that
  \<^const>\<open>mock_prediction\<close> computes it.
\<close>

definition mock_score :: "int \<Rightarrow> real \<Rightarrow> real \<Rightarrow> int \<Rightarrow> real \<Rightarrow> int" where
  "mock_score age faq ecog apoe4 ptau =
     (let score0 = (15 :: int);
          score1 = (if age > 75 then score0 + 20 else if age > 65 then score0 + 10 else score0);
          score2 = of_int score1 + faq * (15 / 10);
          score3 = score2 + (ecog - 1) * 10;
          score4 = score3 + of_int (apoe4 * 12);
          score5 = (if ptau > 6 / 10 then score4 + 20 else if ptau > 3 / 10 then score4 + 10 else score4)
      in min (py_round score5) 100)"

text \<open>
  A file of the store can be loaded when it is absent, or when its content is what its
  extension announces; this is when a turn of the loop of \<^verbatim>\<open>load_artifacts\<close> does not
  raise.
\<close>

definition loadable :: "(string \<rightharpoonup> fs_file) \<Rightarrow> string \<Rightarrow> string \<Rightarrow> bool" where
  "loadable fs dir fname =
     (case fs (os_path_join dir fname) of
        None \<Rightarrow> True
      | Some f \<Rightarrow>
          if endswith fname ''.pkl'' then (case f of Pickled p \<Rightarrow> True | _ \<Rightarrow> False)
          else if endswith fname ''.json'' then (case f of JsonText j \<Rightarrow> True | _ \<Rightarrow> False)
          else True)"

section \<open>Example inputs\<close>

text \<open>The sample patient of the module's self-test (lines 138 to 150).\<close>

definition sample_patient :: patient where
  "sample_patient =
     [''AGE'' \<mapsto> PInt 72, ''PTGENDER'' \<mapsto> PStr ''Female'', ''PTEDUCAT'' \<mapsto> PInt 16,
      ''FAQ'' \<mapsto> PInt 8, ''EcogPtMem'' \<mapsto> PFloat (25 / 10), ''EcogPtTotal'' \<mapsto> PFloat 2,
      ''APOE4'' \<mapsto> PInt 1, ''PTAU'' \<mapsto> PFloat (45 / 100), ''ABETA42'' \<mapsto> PFloat (152 / 10),
      ''ABETA40'' \<mapsto> PFloat (1805 / 10), ''NFL'' \<mapsto> PFloat 22]"

text \<open>A store of three double-precision predictors that answer a fixed probability each.\<close>

definition constant_store :: "real \<Rightarrow> real \<Rightarrow> real \<Rightarrow> artifacts" where
  "constant_store a b c =
     [(''stage1_pipeline'', Pipeline (\<lambda>X. Inr (Float64 a))),
      (''stage2_pipeline'', Pipeline (\<lambda>X. Inr (Float64 b))),
      (''stage3_pipeline'', Pipeline (\<lambda>X. Inr (Float64 c)))]"

text \<open>
  Rounding a real to single precision, as NumPy 2 does to a Python float compared with a
  single-precision scalar: 24 significant bits, nearest value, a tie to the even
  significand. The search for the binade of \<open>x\<close> starts at \<open>2\<^sup>1\<^sup>2\<^sup>7\<close> and stops at the
  smallest normal binade, below which the spacing stays \<open>2\<^sup>-\<^sup>1\<^sup>4\<^sup>9\<close>; overflow to infinity
  is outside the model.
\<close>

definition ulp_round :: "real \<Rightarrow> real \<Rightarrow> real" where
  "ulp_round u x = of_int (py_round (x / u)) * u"

fun float32_search :: "nat \<Rightarrow> real \<Rightarrow> real \<Rightarrow> real" where
  "float32_search 0 lo x = ulp_round (lo / 2 ^ 23) x"
| "float32_search (Suc fuel) lo x =
     (if lo \<le> x then ulp_round (lo / 2 ^ 23) x else float32_search fuel (lo / 2) x)"

definition float32 :: "real \<Rightarrow> real" where
  "float32 x =
     (if x < 0 then - float32_search 253 (2 ^ 127) (- x) else float32_search 253 (2 ^ 127) x)"

text \<open>
  A store whose stage 3 predictor works in single precision and answers the
  single-precision number nearest to 0.7, which is \<open>11744051 / 2\<^sup>2\<^sup>4\<close>, about 0.69999999.
\<close>

definition single_precision_store :: artifacts where
  "single_precision_store =
     [(''stage1_pipeline'', Pipeline (\<lambda>X. Inr (Float64 (4 / 5)))),
      (''stage2_pipeline'', Pipeline (\<lambda>X. Inr (Float64 (3 / 5)))),
      (''stage3_pipeline'', Pipeline (\<lambda>X. Inr (Float32 (11744051 / 16777216))))]"

text \<open>A directory that holds the stage 1 predictor only, and the store loaded from it.\<close>

definition stage1_only_files :: "string \<rightharpoonup> fs_file" where
  "stage1_only_files = [''models/stage1_pipeline.pkl'' \<mapsto> Pickled (\<lambda>X. Inr (Float64 (4 / 5)))]"

definition stage1_only_store :: artifacts where
  "stage1_only_store = [(''stage1_pipeline'', Pipeline (\<lambda>X. Inr (Float64 (4 / 5))))]"

text \<open>A directory whose only file is a feature list that is not valid JSON.\<close>

definition corrupt_files :: "string \<rightharpoonup> fs_file" where
  "corrupt_files = [''models/stage1_features.json'' \<mapsto> Corrupt]"

text \<open>
  Two stores whose predictors raise the same exception, the first at stage 1, the second
  at stage 2.
\<close>

definition failing_store_1 :: artifacts where
  "failing_store_1 =
     [(''stage1_pipeline'', Pipeline (\<lambda>X. Inl (PredictorRaised ''shape mismatch''))),
      (''stage2_pipeline'', Pipeline (\<lambda>X. Inr (Float64 (3 / 5)))),
      (''stage3_pipeline'', Pipeline (\<lambda>X. Inr (Float64 (7 / 10))))]"

definition failing_store_2 :: artifacts where
  "failing_store_2 =
     [(''stage1_pipeline'', Pipeline (\<lambda>X. Inr (Float64 (4 / 5)))),
      (''stage2_pipeline'', Pipeline (\<lambda>X. Inl (PredictorRaised ''shape mismatch''))),
      (''stage3_pipeline'', Pipeline (\<lambda>X. Inr (Float64 (7 / 10))))]"

text \<open>The record of the fallback scenario: age 80, FAQ 10, EcogPtMem 2, APOE4 2, pTau 0.7.\<close>

definition fallback_scenario :: patient where
  "fallback_scenario =
     [''AGE'' \<mapsto> PFloat 80, ''FAQ'' \<mapsto> PFloat 10, ''EcogPtMem'' \<mapsto> PFloat 2,
      ''APOE4'' \<mapsto> PInt 2, ''PTAU'' \<mapsto> PFloat (7 / 10)]"

section \<open>Basic facts\<close>

lemma bind_e_simps [simp]:
  "bind_e (Inl e) f = Inl e"
  "bind_e (Inr x) f = f x"
  by (simp_all add: bind_e_def)

lemma bind_e_eq_Inr: "bind_e m f = Inr y \<longleftrightarrow> (\<exists>x. m = Inr x \<and> f x = Inr y)"
  by (cases m) simp_all

lemma bind_e_eq_Inl: "bind_e m f = Inl e \<longleftrightarrow> m = Inl e \<or> (\<exists>x. m = Inr x \<and> f x = Inl e)"
  by (cases m) simp_all

lemmas engine_defs = predict_def normalise_record_def cascade_def stage1_def stage1_row_def
  stage2_def stage2_row_def stage3_def stage3_row_def artifact_features_def artifact_pipeline_def
  artifact_threshold_def stage1_default_features_def build_row_def cascade_factors_def
  final_risk_def dict_get_def np_ge_def

lemma str_count_bounds: "0 \<le> str_count s c \<and> str_count s c \<le> int (length s)"
  unfolding str_count_def by (induction s) auto

lemma str_count_filter: "str_count s c = int (length (filter (\<lambda>x. x = c) s))"
  unfolding str_count_def by (induction s) auto

lemma cascade_Inr:
  "cascade w arts pd = Inr r \<Longrightarrow>
     \<exists>p1 r1 p2 r2 p3. stage1 w arts pd = Inr (p1, r1) \<and> stage2 w arts pd p1 = Inr (p2, r2) \<and>
       stage3 arts pd p2 = Inr p3 \<and>
       r = \<lparr>final_risk_score = np_value p3, final_risk_category = Some (final_risk w p3),
            stage1_prob = np_value p1, stage2_prob = np_value p2, stage3_prob = np_value p3,
            stage1_risk = r1, stage2_risk = r2, stage3_risk = final_risk w p3,
            top_factors = cascade_factors pd\<rparr>"
  unfolding cascade_def by (auto simp: bind_e_eq_Inr split: prod.splits)

lemma final_risk_cases:
  "(final_risk w p = ''High'' \<longleftrightarrow> np_ge w p (7 / 10)) \<and>
   (final_risk w p = ''Elevated'' \<longleftrightarrow> \<not> np_ge w p (7 / 10) \<and> np_ge w p (4 / 10)) \<and>
   (final_risk w p = ''Low'' \<longleftrightarrow> \<not> np_ge w p (7 / 10) \<and> \<not> np_ge w p (4 / 10))"
  by (simp add: final_risk_def)

lemma stage3_threshold_unused:
  assumes "\<forall>k. k \<noteq> ''stage3_threshold'' \<longrightarrow> map_of arts' k = map_of arts k"
  shows "predict w arts' pd = predict w arts pd"
proof -
  have f: "artifact_features arts' ''stage1_features'' d = artifact_features arts ''stage1_features'' d" for d
    using assms by (simp add: artifact_features_def)
  have p: "artifact_pipeline arts' ''stage1_pipeline'' = artifact_pipeline arts ''stage1_pipeline''"
    "artifact_pipeline arts' ''stage2_pipeline'' = artifact_pipeline arts ''stage2_pipeline''"
    "artifact_pipeline arts' ''stage3_pipeline'' = artifact_pipeline arts ''stage3_pipeline''"
    using assms by (simp_all add: artifact_pipeline_def)
  have t: "artifact_threshold arts' ''stage1_threshold'' = artifact_threshold arts ''stage1_threshold''"
    "artifact_threshold arts' ''stage2_threshold'' = artifact_threshold arts ''stage2_threshold''"
    using assms by (simp_all add: artifact_threshold_def)
  have "stage1 w arts' = stage1 w arts" "stage2 w arts' = stage2 w arts" "stage3 arts' = stage3 arts"
    by (simp_all add: fun_eq_iff stage1_def stage1_row_def stage2_def stage3_def f p t)
  then show ?thesis by (simp add: predict_def cascade_def)
qed

lemma predict_sample_high:
  "snd (predict w (constant_store (4 / 5) (3 / 5) (7 / 10)) sample_patient) =
     Inr \<lparr>final_risk_score = 7 / 10, final_risk_category = Some ''High'',
          stage1_prob = 4 / 5, stage2_prob = 3 / 5, stage3_prob = 7 / 10,
          stage1_risk = ''Elevated'', stage2_risk = ''Elevated'', stage3_risk = ''High'',
          top_factors = [(''FAQ Score: '', PInt 8), (''APOE4 Count: '', PInt 1),
                         (''pTau-217: '', PFloat (9 / 20))]\<rparr>"
  by (simp add: engine_defs constant_store_def sample_patient_def)

lemma normalise_record_apply:
  "normalise_record pd k =
     (if k = ''APOE4'' then Some (preprocess_apoe4 (dict_get pd ''APOE4'' (PInt 0)))
      else if k = ''PTGENDER'' then Some (preprocess_gender (dict_get pd ''PTGENDER'' (PStr ''Male'')))
      else pd k)"
  by (simp add: normalise_record_def Let_def dict_get_def)

lemma preprocess_apoe4_numeric: "is_numeric (preprocess_apoe4 v)"
  by (cases v) auto

lemma preprocess_gender_numeric: "v \<noteq> PNone \<Longrightarrow> is_numeric (preprocess_gender v)"
  by (cases v) auto

lemma mock_prediction_eq:
  "mock_prediction ios fos data =
     bind_e (py_int ios (dict_get data ''AGE'' (PInt 65))) (\<lambda>age.
     bind_e (py_float fos (dict_get data ''FAQ'' (PInt 0))) (\<lambda>faq.
     bind_e (py_float fos (dict_get data ''EcogPtMem'' (PInt 1))) (\<lambda>ecog.
     bind_e (py_int ios (dict_get data ''APOE4'' (PInt 0))) (\<lambda>apoe4.
     bind_e (py_float fos (dict_get data ''PTAU'' (PInt 0))) (\<lambda>ptau.
     Inr (mock_result (mock_score age faq ecog apoe4 ptau) faq apoe4 ptau))))))"
  unfolding mock_prediction_def mock_score_def Let_def ..

lemma mock_prediction_Inr:
  "mock_prediction ios fos data = Inr m \<longleftrightarrow>
     (\<exists>age faq ecog apoe4 ptau.
        py_int ios (dict_get data ''AGE'' (PInt 65)) = Inr age \<and>
        py_float fos (dict_get data ''FAQ'' (PInt 0)) = Inr faq \<and>
        py_float fos (dict_get data ''EcogPtMem'' (PInt 1)) = Inr ecog \<and>
        py_int ios (dict_get data ''APOE4'' (PInt 0)) = Inr apoe4 \<and>
        py_float fos (dict_get data ''PTAU'' (PInt 0)) = Inr ptau \<and>
        m = mock_result (mock_score age faq ecog apoe4 ptau) faq apoe4 ptau)"
  unfolding mock_prediction_eq bind_e_eq_Inr by blast

lemma py_round_of_int [simp]: "py_round (of_int n) = n"
  by (simp add: py_round_def)

lemma py_round_numeral [simp]:
  "py_round (numeral n) = numeral n" "py_round (- numeral n) = - numeral n" "py_round 0 = 0"
  using py_round_of_int [of "numeral n"] py_round_of_int [of "- numeral n"] py_round_of_int [of 0]
  by simp_all

lemma mock_explicit_zero_ptau:
  "mock_prediction (\<lambda>s. None) (\<lambda>s. None) [''PTAU'' \<mapsto> PFloat 0] = Inr (mock_result 15 0 0 0)"
  by (simp add: mock_prediction_eq mock_score_def dict_get_def)

lemma predict_zero_faq:
  "snd (predict w (constant_store (4 / 5) (3 / 5) (7 / 10)) [''FAQ'' \<mapsto> PInt 0]) =
     Inr \<lparr>final_risk_score = 7 / 10, final_risk_category = Some ''High'',
          stage1_prob = 4 / 5, stage2_prob = 3 / 5, stage3_prob = 7 / 10,
          stage1_risk = ''Elevated'', stage2_risk = ''Elevated'', stage3_risk = ''High'',
          top_factors = [(''FAQ Score: '', PInt 0), (''APOE4 Count: '', PInt 0),
                         (''pTau-217: '', PStr ''Not provided'')]\<rparr>"
  by (simp add: engine_defs constant_store_def str_lower_def lower_char_def)

lemma pickle_load_Inl: "pickle_load f = Inl e \<Longrightarrow> e = UnpicklingError"
  by (cases f) auto

lemma json_load_Inl: "json_load f = Inl e \<Longrightarrow> e = JSONDecodeError"
  by (cases f) auto

lemma load_one_Inl:
  "load_one fs dir arts fname = Inl e \<Longrightarrow> (e = UnpicklingError \<or> e = JSONDecodeError) \<and> \<not> loadable fs dir fname"
  unfolding load_one_def loadable_def
  by (auto simp: bind_e_eq_Inl split: option.splits if_splits fs_file.splits dest: pickle_load_Inl json_load_Inl)

lemma load_one_absent: "fs (os_path_join dir fname) = None \<Longrightarrow> load_one fs dir arts fname = Inr arts"
  by (simp add: load_one_def)

lemma load_one_loadable: "loadable fs dir fname \<Longrightarrow> \<exists>arts'. load_one fs dir arts fname = Inr arts'"
  unfolding load_one_def loadable_def
  by (auto split: option.splits if_splits fs_file.splits)

lemma load_one_Inr_Nil:
  "load_one fs dir arts fname = Inr [] \<Longrightarrow>
     arts = [] \<and> (endswith fname ''.pkl'' \<or> endswith fname ''.json'' \<longrightarrow> fs (os_path_join dir fname) = None)"
  unfolding load_one_def
  by (auto simp: bind_e_eq_Inr split: option.splits if_splits)

lemma load_loop_Inl:
  "load_loop fs dir files arts = Inl e \<Longrightarrow>
     (e = UnpicklingError \<or> e = JSONDecodeError) \<and> (\<exists>f \<in> set files. \<not> loadable fs dir f)"
proof (induction files arbitrary: arts)
  case Nil
  then show ?case by simp
next
  case (Cons f files)
  then show ?case
    by (auto simp: bind_e_eq_Inl dest: load_one_Inl)
qed

lemma load_loop_absent:
  "\<forall>f \<in> set files. fs (os_path_join dir f) = None \<Longrightarrow> load_loop fs dir files arts = Inr arts"
  by (induction files arbitrary: arts) (simp_all add: load_one_absent)

lemma load_loop_loadable:
  "\<forall>f \<in> set files. loadable fs dir f \<Longrightarrow> \<exists>arts'. load_loop fs dir files arts = Inr arts'"
proof (induction files arbitrary: arts)
  case Nil
  then show ?case by simp
next
  case (Cons f files)
  then obtain a where "load_one fs dir arts f = Inr a"
    using load_one_loadable [of fs dir f arts] by auto
  with Cons show ?case by simp
qed

lemma load_loop_Inr_Nil:
  "load_loop fs dir files arts = Inr [] \<Longrightarrow>
     arts = [] \<and>
     (\<forall>f \<in> set files. endswith f ''.pkl'' \<or> endswith f ''.json'' \<longrightarrow> fs (os_path_join dir f) = None)"
proof (induction files arbitrary: arts)
  case Nil
  then show ?case by simp
next
  case (Cons f files)
  from Cons.prems obtain a where a: "load_one fs dir arts f = Inr a" "load_loop fs dir files a = Inr []"
    by (auto simp: bind_e_eq_Inr)
  from Cons.IH [OF a(2)] have "a = []"
    and rest: "\<forall>f \<in> set files. endswith f ''.pkl'' \<or> endswith f ''.json'' \<longrightarrow> fs (os_path_join dir f) = None"
    by simp_all
  with a(1) load_one_Inr_Nil [of fs dir arts f] show ?case by simp
qed

lemma artifact_files_ext: "\<forall>f \<in> set artifact_files. endswith f ''.pkl'' \<or> endswith f ''.json''"
  by (simp add: artifact_files_def endswith_def)

lemma load_artifacts_none:
  "load_artifacts fs dir = Inl FileNotFoundError \<longleftrightarrow>
     (\<forall>fname \<in> set artifact_files. fs (os_path_join dir fname) = None)"
proof
  assume fails: "load_artifacts fs dir = Inl FileNotFoundError"
  have "load_loop fs dir artifact_files [] = Inr []"
  proof (cases "load_loop fs dir artifact_files []")
    case (Inl e)
    with load_loop_Inl [OF Inl] fails show ?thesis
      by (auto simp: load_artifacts_def)
  next
    case (Inr a)
    with fails show ?thesis
      by (cases a) (simp_all add: load_artifacts_def)
  qed
  from load_loop_Inr_Nil [OF this] artifact_files_ext
  show "\<forall>fname \<in> set artifact_files. fs (os_path_join dir fname) = None" by blast
next
  assume "\<forall>fname \<in> set artifact_files. fs (os_path_join dir fname) = None"
  then show "load_artifacts fs dir = Inl FileNotFoundError"
    by (simp add: load_artifacts_def load_loop_absent)
qed

lemma load_artifacts_loadable:
  assumes "\<forall>fname \<in> set artifact_files. loadable fs dir fname"
  shows "(\<exists>arts. load_artifacts fs dir = Inr arts) \<longleftrightarrow>
         (\<exists>fname \<in> set artifact_files. fs (os_path_join dir fname) \<noteq> None)"
proof -
  from load_loop_loadable [OF assms] obtain a where a: "load_loop fs dir artifact_files [] = Inr a"
    by blast
  show ?thesis
  proof (cases a)
    case Nil
    with a have "load_artifacts fs dir = Inl FileNotFoundError"
      by (simp add: load_artifacts_def)
    then show ?thesis using load_artifacts_none [of fs dir] by auto
  next
    case (Cons x xs)
    with a have ok: "load_artifacts fs dir = Inr a"
      by (simp add: load_artifacts_def)
    then have "load_artifacts fs dir \<noteq> Inl FileNotFoundError" by simp
    then show ?thesis using ok load_artifacts_none [of fs dir] by auto
  qed
qed

lemma load_one_unloadable:
  "\<not> loadable fs dir fname \<Longrightarrow>
     load_one fs dir arts fname = Inl UnpicklingError \<or> load_one fs dir arts fname = Inl JSONDecodeError"
  unfolding load_one_def loadable_def
  by (auto split: option.splits if_splits fs_file.splits)

lemma load_loop_unloadable:
  "\<exists>f \<in> set files. \<not> loadable fs dir f \<Longrightarrow>
     load_loop fs dir files arts = Inl UnpicklingError \<or> load_loop fs dir files arts = Inl JSONDecodeError"
proof (induction files arbitrary: arts)
  case Nil
  then show ?case by simp
next
  case (Cons f files)
  show ?case
  proof (cases "load_one fs dir arts f")
    case (Inl e)
    with load_one_Inl [OF Inl] show ?thesis by auto
  next
    case (Inr a)
    then have "loadable fs dir f"
      using load_one_unloadable [of fs dir f arts] by auto
    with Cons.prems have "\<exists>f \<in> set files. \<not> loadable fs dir f" by auto
    from Cons.IH [OF this, of a] Inr show ?thesis by simp
  qed
qed

lemma load_artifacts_unloadable:
  assumes "\<exists>fname \<in> set artifact_files. \<not> loadable fs dir fname"
  shows "load_artifacts fs dir = Inl UnpicklingError \<or> load_artifacts fs dir = Inl JSONDecodeError"
  using load_loop_unloadable [OF assms, of "[]"] by (auto simp: load_artifacts_def)

lemma load_corrupt_files: "load_artifacts corrupt_files ''models'' = Inl JSONDecodeError"
  by (simp add: corrupt_files_def load_artifacts_def artifact_files_def load_one_def
      os_path_join_def endswith_def)

lemma load_stage1_only_files: "load_artifacts stage1_only_files ''models'' = Inr stage1_only_store"
  by (simp add: stage1_only_files_def stage1_only_store_def load_artifacts_def artifact_files_def
      load_one_def os_path_join_def endswith_def)

lemma load_no_files: "load_artifacts Map.empty ''models'' = Inl FileNotFoundError"
  by (simp add: load_artifacts_def artifact_files_def load_one_def)

lemma predict_snd: "snd (predict w arts pd) = cascade w arts (normalise_record pd)"
  by (simp add: predict_def Let_def)

lemma cascade_stage1_fails: "stage1 w arts pd = Inl e \<Longrightarrow> cascade w arts pd = Inl e"
  by (simp add: cascade_def)

lemma cascade_stage2_fails:
  "stage1 w arts pd = Inr (p1, r1) \<Longrightarrow> stage2 w arts pd p1 = Inl e \<Longrightarrow> cascade w arts pd = Inl e"
  by (simp add: cascade_def)

lemma cascade_stage3_fails:
  "stage1 w arts pd = Inr (p1, r1) \<Longrightarrow> stage2 w arts pd p1 = Inr (p2, r2) \<Longrightarrow>
   stage3 arts pd p2 = Inl e \<Longrightarrow> cascade w arts pd = Inl e"
  by (simp add: cascade_def)

lemma stage1_missing:
  "map_of arts ''stage1_pipeline'' = None \<Longrightarrow> stage1_row arts pd = Inr X1 \<Longrightarrow>
   stage1 w arts pd = Inl (KeyError ''stage1_pipeline'')"
  by (simp add: stage1_def artifact_pipeline_def)

lemma stage2_missing:
  "map_of arts ''stage2_pipeline'' = None \<Longrightarrow> stage2 w arts pd p = Inl (KeyError ''stage2_pipeline'')"
  by (simp add: stage2_def artifact_pipeline_def)

lemma stage3_missing:
  "map_of arts ''stage3_pipeline'' = None \<Longrightarrow> stage3 arts pd p = Inl (KeyError ''stage3_pipeline'')"
  by (simp add: stage3_def artifact_pipeline_def)

lemma stage1_raises:
  "map_of arts ''stage1_pipeline'' = Some (Pipeline q) \<Longrightarrow> stage1_row arts pd = Inr X1 \<Longrightarrow>
   q X1 = Inl e \<Longrightarrow> stage1 w arts pd = Inl e"
  by (simp add: stage1_def artifact_pipeline_def)

lemma stage2_raises:
  "map_of arts ''stage2_pipeline'' = Some (Pipeline q) \<Longrightarrow> q (stage2_row pd p) = Inl e \<Longrightarrow>
   stage2 w arts pd p = Inl e"
  by (simp add: stage2_def artifact_pipeline_def)

lemma stage3_raises:
  "map_of arts ''stage3_pipeline'' = Some (Pipeline q) \<Longrightarrow> q (stage3_row pd p) = Inl e \<Longrightarrow>
   stage3 arts pd p = Inl e"
  by (simp add: stage3_def artifact_pipeline_def)

lemma stage1_only_stage1:
  "stage1 w stage1_only_store (normalise_record sample_patient) = Inr (Float64 (4 / 5), ''Elevated'')"
  by (simp add: engine_defs stage1_only_store_def sample_patient_def)

lemma failing_store_1_stage1:
  "stage1 w failing_store_1 (normalise_record sample_patient) = Inl (PredictorRaised ''shape mismatch'')"
  by (simp add: engine_defs failing_store_1_def sample_patient_def)

lemma failing_store_2_stage1:
  "stage1 w failing_store_2 (normalise_record sample_patient) = Inr (Float64 (4 / 5), ''Elevated'')"
  by (simp add: engine_defs failing_store_2_def sample_patient_def)

lemma failing_store_2_stage2:
  "stage2 w failing_store_2 (normalise_record sample_patient) (Float64 (4 / 5)) =
     Inl (PredictorRaised ''shape mismatch'')"
  by (simp add: engine_defs failing_store_2_def sample_patient_def)

lemma map_of_foldl_update:
  "map_of (foldl (\<lambda>row f. AList.update f (g f) row) acc fs) k =
     (if k \<in> set fs then Some (g k) else map_of acc k)"
  by (induction fs arbitrary: acc) (auto simp: update_conv')

lemma map_of_build_row:
  "map_of (build_row pd features) f =
     (if f \<in> set features then Some (dict_get pd f (PInt 0)) else None)"
  by (simp add: build_row_def map_of_foldl_update)

lemma dict_get_normalise_absent:
  "pd f = None \<Longrightarrow>
     dict_get (normalise_record pd) f (PInt 0) = PInt (if f = ''PTGENDER'' then 1 else 0)"
  by (auto simp: dict_get_def normalise_record_apply str_lower_def lower_char_def)

lemma dict_get_normalise_null:
  "pd f = Some PNone \<Longrightarrow> f \<noteq> ''APOE4'' \<Longrightarrow> dict_get (normalise_record pd) f (PInt 0) = PNone"
  by (auto simp: dict_get_def normalise_record_apply)

lemma dict_get_normalise_apoe4:
  "pd ''APOE4'' = None \<or> pd ''APOE4'' = Some PNone \<Longrightarrow>
     dict_get (normalise_record pd) ''APOE4'' (PInt 0) = PInt 0"
  by (auto simp: dict_get_def normalise_record_apply)

lemma stage1_row_absent:
  assumes "pd f = None"
    and "artifact_features arts ''stage1_features'' stage1_default_features = Inr features"
    and "f \<in> set features"
  shows "\<exists>X1. stage1_row arts (normalise_record pd) = Inr X1 \<and>
              map_of X1 f = Some (PInt (if f = ''PTGENDER'' then 1 else 0))"
  using assms by (simp add: stage1_row_def map_of_build_row dict_get_normalise_absent)

lemma stage2_row_apoe4:
  "pd ''APOE4'' = None \<or> pd ''APOE4'' = Some PNone \<Longrightarrow>
     map_of (stage2_row (normalise_record pd) p1) ''APOE4'' = Some (PInt 0)"
  by (simp add: stage2_row_def dict_get_normalise_apoe4)

lemma stage3_row_absent:
  "pd f = None \<Longrightarrow> f \<in> set [''PTAU'', ''ABETA42'', ''ABETA40'', ''NFL''] \<Longrightarrow>
     map_of (stage3_row (normalise_record pd) p2) f = Some (PInt 0)"
  by (auto simp: stage3_row_def dict_get_def normalise_record_apply)

lemma build_row_null:
  "pd f = Some PNone \<Longrightarrow> f \<noteq> ''APOE4'' \<Longrightarrow> f \<in> set features \<Longrightarrow>
     map_of (build_row (normalise_record pd) features) f = Some PNone"
  by (simp add: map_of_build_row dict_get_normalise_null)

lemma stage1_row_null:
  assumes "pd f = Some PNone" and "f \<noteq> ''APOE4''"
    and "artifact_features arts ''stage1_features'' stage1_default_features = Inr features"
    and "f \<in> set features"
  shows "\<exists>X1. stage1_row arts (normalise_record pd) = Inr X1 \<and> map_of X1 f = Some PNone"
  using assms by (simp add: stage1_row_def build_row_null)

lemma stage3_row_null:
  "pd f = Some PNone \<Longrightarrow> f \<in> set [''PTAU'', ''ABETA42'', ''ABETA40'', ''NFL''] \<Longrightarrow>
     map_of (stage3_row (normalise_record pd) p2) f = Some PNone"
  by (auto simp: stage3_row_def dict_get_def normalise_record_apply)

lemma predict_total:
  assumes "map_of arts ''stage1_pipeline'' = Some (Pipeline q1)"
    and "map_of arts ''stage2_pipeline'' = Some (Pipeline q2)"
    and "map_of arts ''stage3_pipeline'' = Some (Pipeline q3)"
    and "\<forall>X. \<exists>p. q1 X = Inr p" and "\<forall>X. \<exists>p. q2 X = Inr p" and "\<forall>X. \<exists>p. q3 X = Inr p"
    and "artifact_features arts ''stage1_features'' stage1_default_features = Inr features"
    and "artifact_threshold arts ''stage1_threshold'' = Inr t1"
    and "artifact_threshold arts ''stage2_threshold'' = Inr t2"
  shows "\<exists>r. snd (predict w arts pd) = Inr r"
proof -
  let ?pd = "normalise_record pd"
  obtain p1 where p1: "q1 (build_row ?pd features) = Inr p1" using assms(4) by blast
  then obtain r1 where s1: "stage1 w arts ?pd = Inr (p1, r1)"
    using assms by (simp add: stage1_def stage1_row_def artifact_pipeline_def)
  obtain p2 where p2: "q2 (stage2_row ?pd p1) = Inr p2" using assms(5) by blast
  then obtain r2 where s2: "stage2 w arts ?pd p1 = Inr (p2, r2)"
    using assms by (simp add: stage2_def artifact_pipeline_def)
  obtain p3 where p3: "q3 (stage3_row ?pd p2) = Inr p3" using assms(6) by blast
  then have s3: "stage3 arts ?pd p2 = Inr p3"
    using assms by (simp add: stage3_def artifact_pipeline_def)
  show ?thesis by (simp add: predict_snd cascade_def s1 s2 s3)
qed

lemma py_round_ge_floor: "\<lfloor>x\<rfloor> \<le> py_round x"
  by (simp add: py_round_def Let_def)

lemma py_round_nonneg: "0 \<le> x \<Longrightarrow> 0 \<le> py_round x"
  using py_round_ge_floor [of x] by (simp add: order_trans [of 0 "\<lfloor>x\<rfloor>"])

lemma mock_score_le: "mock_score age faq ecog apoe4 ptau \<le> 100"
  by (simp add: mock_score_def Let_def)

lemma round_cases:
  fixes x :: real
  shows "x - of_int \<lfloor>x\<rfloor> < 1 / 2 \<Longrightarrow> round x = \<lfloor>x\<rfloor>"
    and "1 / 2 \<le> x - of_int \<lfloor>x\<rfloor> \<Longrightarrow> round x = \<lfloor>x\<rfloor> + 1"
proof -
  have bounds: "of_int \<lfloor>x\<rfloor> \<le> x" "x < of_int \<lfloor>x\<rfloor> + 1" by linarith+
  show "round x = \<lfloor>x\<rfloor>" if "x - of_int \<lfloor>x\<rfloor> < 1 / 2"
    unfolding round_def using that bounds by (intro floor_unique) linarith+
  show "round x = \<lfloor>x\<rfloor> + 1" if "1 / 2 \<le> x - of_int \<lfloor>x\<rfloor>"
    unfolding round_def using that bounds by (intro floor_unique) (simp_all, linarith+)
qed

lemma py_round_spec_round: "py_round x = spec_round x"
proof -
  have bounds: "of_int \<lfloor>x\<rfloor> \<le> x" "x < of_int \<lfloor>x\<rfloor> + 1" by linarith+
  consider "x - of_int \<lfloor>x\<rfloor> < 1 / 2" | "x - of_int \<lfloor>x\<rfloor> = 1 / 2" | "x - of_int \<lfloor>x\<rfloor> > 1 / 2"
    by linarith
  then show ?thesis
  proof cases
    case 1
    then have r: "round x = \<lfloor>x\<rfloor>" by (rule round_cases)
    have "of_int \<lfloor>x\<rfloor> - x \<noteq> 1 / 2" using bounds by linarith
    with 1 r show ?thesis by (simp add: py_round_def spec_round_def Let_def)
  next
    case 2
    then have r: "round x = \<lfloor>x\<rfloor> + 1" by (intro round_cases) simp
    have t: "of_int (\<lfloor>x\<rfloor> + 1) - x = 1 / 2" using 2 by simp
    show ?thesis using 2 t unfolding py_round_def spec_round_def Let_def r by auto
  next
    case 3
    then have r: "round x = \<lfloor>x\<rfloor> + 1" by (intro round_cases) simp
    have t: "of_int (\<lfloor>x\<rfloor> + 1) - x \<noteq> 1 / 2" using 3 by simp
    show ?thesis using 3 t unfolding py_round_def spec_round_def Let_def r by auto
  qed
qed

lemma spec_round_numeral [simp]: "spec_round (numeral n) = numeral n"
  using py_round_spec_round [of "numeral n"] by simp

lemma mock_sum_eq:
  "(let score0 = (15 :: int);
        score1 = (if age > 75 then score0 + 20 else if age > 65 then score0 + 10 else score0);
        score2 = of_int score1 + faq * (15 / 10);
        score3 = score2 + (ecog - 1) * 10;
        score4 = score3 + of_int (apoe4 * 12)
    in (if ptau > 6 / 10 then score4 + 20 else if ptau > 3 / 10 then score4 + 10 else score4)) =
   15 + spec_age_bonus (of_int age) + (15 / 10) * faq + 10 * (ecog - 1) + 12 * of_int apoe4
     + spec_ptau_bonus ptau"
  by (simp add: Let_def spec_age_bonus_def spec_ptau_bonus_def)

lemma mock_score_spec:
  "of_int (mock_score age faq ecog apoe4 ptau) / 100 =
     spec_score (of_int age) faq ecog (of_int apoe4) ptau"
  unfolding mock_score_def spec_score_def py_round_spec_round
  using mock_sum_eq [of age faq ecog apoe4 ptau] by (simp add: Let_def)

lemma mock_score_nonneg:
  assumes "0 \<le> faq" "1 \<le> ecog" "0 \<le> apoe4"
  shows "0 \<le> mock_score age faq ecog apoe4 ptau"
proof -
  have "0 \<le> spec_age_bonus (of_int age)" "0 \<le> spec_ptau_bonus ptau"
    by (simp_all add: spec_age_bonus_def spec_ptau_bonus_def)
  moreover have "0 \<le> (15 / 10) * faq" "0 \<le> 10 * (ecog - 1)" "(0 :: real) \<le> 12 * of_int apoe4"
    using assms by simp_all
  ultimately have "0 \<le> 15 + spec_age_bonus (of_int age) + (15 / 10) * faq + 10 * (ecog - 1)
      + 12 * of_int apoe4 + spec_ptau_bonus ptau"
    by linarith
  then have "0 \<le> py_round (15 + spec_age_bonus (of_int age) + (15 / 10) * faq + 10 * (ecog - 1)
      + 12 * of_int apoe4 + spec_ptau_bonus ptau)"
    by (rule py_round_nonneg)
  then have "0 \<le> spec_score (of_int age) faq ecog (of_int apoe4) ptau"
    by (simp add: spec_score_def py_round_spec_round)
  then show ?thesis
    using mock_score_spec [of age faq ecog apoe4 ptau] by simp
qed

lemma mock_result_upper:
  "score \<le> 100 \<Longrightarrow>
     stage1_prob (mock_result score faq apoe4 ptau) \<le> 1 \<and>
     stage2_prob (mock_result score faq apoe4 ptau) \<le> 1 \<and>
     stage3_prob (mock_result score faq apoe4 ptau) \<le> 1"
  by (simp add: mock_result_def min_def)

lemma mock_result_lower:
  "0 \<le> score \<Longrightarrow>
     0 \<le> stage1_prob (mock_result score faq apoe4 ptau) \<and>
     0 \<le> stage2_prob (mock_result score faq apoe4 ptau) \<and>
     0 \<le> stage3_prob (mock_result score faq apoe4 ptau)"
  by (simp add: mock_result_def min_def)

lemma stage1_Inr_pipeline:
  "stage1 w arts pd = Inr (p, r) \<Longrightarrow>
     \<exists>q X. map_of arts ''stage1_pipeline'' = Some (Pipeline q) \<and> q X = Inr p"
  unfolding stage1_def artifact_pipeline_def
  by (auto simp: bind_e_eq_Inr split: option.splits artifact.splits)

lemma stage2_Inr_pipeline:
  "stage2 w arts pd p1 = Inr (p, r) \<Longrightarrow>
     \<exists>q X. map_of arts ''stage2_pipeline'' = Some (Pipeline q) \<and> q X = Inr p"
  unfolding stage2_def artifact_pipeline_def
  by (auto simp: bind_e_eq_Inr split: option.splits artifact.splits)

lemma stage3_Inr_pipeline:
  "stage3 arts pd p2 = Inr p \<Longrightarrow>
     \<exists>q X. map_of arts ''stage3_pipeline'' = Some (Pipeline q) \<and> q X = Inr p"
  unfolding stage3_def artifact_pipeline_def
  by (auto simp: bind_e_eq_Inr split: option.splits artifact.splits)

lemma predict_probs_bounded:
  assumes "snd (predict w arts pd) = Inr r"
    and "\<forall>k q X p. map_of arts k = Some (Pipeline q) \<and> q X = Inr p \<longrightarrow>
          0 \<le> np_value p \<and> np_value p \<le> 1"
  shows "0 \<le> stage1_prob r \<and> stage1_prob r \<le> 1 \<and> 0 \<le> stage2_prob r \<and> stage2_prob r \<le> 1 \<and>
         0 \<le> stage3_prob r \<and> stage3_prob r \<le> 1"
proof -
  from assms(1) have "cascade w arts (normalise_record pd) = Inr r"
    by (simp add: predict_snd)
  from cascade_Inr [OF this] obtain p1 r1 p2 r2 p3 where
    s: "stage1 w arts (normalise_record pd) = Inr (p1, r1)"
       "stage2 w arts (normalise_record pd) p1 = Inr (p2, r2)"
       "stage3 arts (normalise_record pd) p2 = Inr p3"
    and r: "stage1_prob r = np_value p1" "stage2_prob r = np_value p2" "stage3_prob r = np_value p3"
    by auto
  from stage1_Inr_pipeline [OF s(1)] assms(2) have "0 \<le> np_value p1 \<and> np_value p1 \<le> 1" by blast
  moreover from stage2_Inr_pipeline [OF s(2)] assms(2) have "0 \<le> np_value p2 \<and> np_value p2 \<le> 1"
    by blast
  moreover from stage3_Inr_pipeline [OF s(3)] assms(2) have "0 \<le> np_value p3 \<and> np_value p3 \<le> 1"
    by blast
  ultimately show ?thesis using r by simp
qed

lemma mock_scenario:
  "mock_prediction ios fos fallback_scenario = Inr (mock_result 100 10 2 (7 / 10))"
  by (simp add: mock_prediction_eq mock_score_def fallback_scenario_def dict_get_def trunc_def)

lemma mock_negative_faq:
  "mock_prediction (\<lambda>s. None) (\<lambda>s. None) [''FAQ'' \<mapsto> PFloat (- 20)] =
     Inr (mock_result (- 15) (- 20) 0 0)"
  by (simp add: mock_prediction_eq mock_score_def dict_get_def)

lemma empty_record_row:
  "stage1_row [] (normalise_record Map.empty) =
     Inr [(''AGE'', PInt 0), (''PTGENDER'', PInt 1), (''PTEDUCAT'', PInt 0), (''FAQ'', PInt 0),
          (''EcogPtMem'', PInt 0), (''EcogPtTotal'', PInt 0)]"
  by (simp add: engine_defs str_lower_def lower_char_def)

lemma null_faq_row:
  "stage1_row [] (normalise_record [''FAQ'' \<mapsto> PNone]) =
     Inr [(''AGE'', PInt 0), (''PTGENDER'', PInt 1), (''PTEDUCAT'', PInt 0), (''FAQ'', PNone),
          (''EcogPtMem'', PInt 0), (''EcogPtTotal'', PInt 0)]"
  by (simp add: engine_defs str_lower_def lower_char_def)

lemma float32_search_step:
  "float32_search (numeral n) lo x =
     (if lo \<le> x then ulp_round (lo / 2 ^ 23) x else float32_search (pred_numeral n) (lo / 2) x)"
  by (simp add: numeral_eq_Suc)

lemma float32_cut_points:
  "float32 (7 / 10) = 11744051 / 16777216"
  "float32 (4 / 10) = 13421773 / 33554432"
  "float32 (5 / 10) = 5 / 10"
  by (simp_all add: float32_def float32_search_step ulp_round_def py_round_def Let_def)

lemma predict_single_precision:
  "snd (predict float32 single_precision_store sample_patient) =
     Inr \<lparr>final_risk_score = 11744051 / 16777216, final_risk_category = Some ''High'',
          stage1_prob = 4 / 5, stage2_prob = 3 / 5, stage3_prob = 11744051 / 16777216,
          stage1_risk = ''Elevated'', stage2_risk = ''Elevated'', stage3_risk = ''High'',
          top_factors = [(''FAQ Score: '', PInt 8), (''APOE4 Count: '', PInt 1),
                         (''pTau-217: '', PFloat (9 / 20))]\<rparr>"
  by (simp add: engine_defs single_precision_store_def sample_patient_def float32_cut_points)

lemma constant_store_features:
  "artifact_features (constant_store a b c) ''stage1_features'' stage1_default_features =
     Inr stage1_default_features"
  by (simp add: artifact_features_def constant_store_def)

lemma constant_store_thresholds:
  "artifact_threshold (constant_store a b c) ''stage1_threshold'' = Inr (5 / 10)"
  "artifact_threshold (constant_store a b c) ''stage2_threshold'' = Inr (5 / 10)"
  by (simp_all add: artifact_threshold_def constant_store_def)

lemma constant_store_pipelines:
  "map_of (constant_store a b c) ''stage1_pipeline'' = Some (Pipeline (\<lambda>X. Inr (Float64 a)))"
  "map_of (constant_store a b c) ''stage2_pipeline'' = Some (Pipeline (\<lambda>X. Inr (Float64 b)))"
  "map_of (constant_store a b c) ''stage3_pipeline'' = Some (Pipeline (\<lambda>X. Inr (Float64 c)))"
  by (simp_all add: constant_store_def)

section \<open>Final categorisation\<close>

text \<open>
  C1, as the code has it. Whenever \<^verbatim>\<open>predict\<close> returns, the final category is High
  exactly when the stage 3 scalar compares at least 0.7, Elevated exactly when it does
  not but compares at least 0.4, and Low otherwise; the stage 3 risk label is the final
  category, and the reported \<^verbatim>\<open>stage3_prob\<close> is \<^verbatim>\<open>float\<close> of that scalar. NumPy makes
  the comparison in the scalar's own precision. For a double-precision scalar the
  cut-points are 0.7 and 0.4 on the reported \<^verbatim>\<open>stage3_prob\<close>, as the claim states. For
  a single-precision scalar they are 0.7 and 0.4 as NumPy converts them, so the reported
  value can be below 0.7 with the category High. No artifact stored under the name
  \<^verbatim>\<open>stage3_threshold\<close> has any influence: a store that differs only there gives the
  same result.
\<close>

theorem predict_final_category:
  assumes "snd (predict w arts pd) = Inr r"
    and "\<forall>k. k \<noteq> ''stage3_threshold'' \<longrightarrow> map_of arts' k = map_of arts k"
  shows "\<exists>p1 r1 p2 r2 p3.
           stage1 w arts (normalise_record pd) = Inr (p1, r1) \<and>
           stage2 w arts (normalise_record pd) p1 = Inr (p2, r2) \<and>
           stage3 arts (normalise_record pd) p2 = Inr p3 \<and>
           stage3_prob r = np_value p3 \<and>
           (final_risk_category r = Some ''High'' \<longleftrightarrow>
              stage3_prob r \<ge> np_cut w p3 (7 / 10)) \<and>
           (final_risk_category r = Some ''Elevated'' \<longleftrightarrow>
              \<not> stage3_prob r \<ge> np_cut w p3 (7 / 10) \<and> stage3_prob r \<ge> np_cut w p3 (4 / 10)) \<and>
           (final_risk_category r = Some ''Low'' \<longleftrightarrow>
              \<not> stage3_prob r \<ge> np_cut w p3 (7 / 10) \<and> \<not> stage3_prob r \<ge> np_cut w p3 (4 / 10)) \<and>
           (p3 = Float64 (stage3_prob r) \<longrightarrow>
              (final_risk_category r = Some ''High'' \<longleftrightarrow> stage3_prob r \<ge> 7 / 10) \<and>
              (final_risk_category r = Some ''Elevated'' \<longleftrightarrow>
                 4 / 10 \<le> stage3_prob r \<and> stage3_prob r < 7 / 10) \<and>
              (final_risk_category r = Some ''Low'' \<longleftrightarrow> stage3_prob r < 4 / 10)) \<and>
           (p3 = Float32 (stage3_prob r) \<longrightarrow>
              (final_risk_category r = Some ''High'' \<longleftrightarrow> stage3_prob r \<ge> w (7 / 10)) \<and>
              (final_risk_category r = Some ''Elevated'' \<longleftrightarrow>
                 \<not> stage3_prob r \<ge> w (7 / 10) \<and> stage3_prob r \<ge> w (4 / 10)) \<and>
              (final_risk_category r = Some ''Low'' \<longleftrightarrow>
                 \<not> stage3_prob r \<ge> w (7 / 10) \<and> \<not> stage3_prob r \<ge> w (4 / 10))) \<and>
           final_risk_category r = Some (stage3_risk r) \<and>
           snd (predict w arts' pd) = Inr r"
proof -
  from assms(1) have "cascade w arts (normalise_record pd) = Inr r"
    by (simp add: predict_def Let_def)
  from cascade_Inr [OF this] obtain p1 r1 p2 r2 p3 where
    stages: "stage1 w arts (normalise_record pd) = Inr (p1, r1)"
      "stage2 w arts (normalise_record pd) p1 = Inr (p2, r2)"
      "stage3 arts (normalise_record pd) p2 = Inr p3"
    and fields: "final_risk_category r = Some (final_risk w p3)" "stage3_prob r = np_value p3"
      "stage3_risk r = final_risk w p3"
    by auto
  have same: "snd (predict w arts' pd) = Inr r"
    using stage3_threshold_unused [OF assms(2)] assms(1) by simp
  have cuts: "(final_risk_category r = Some ''High'' \<longleftrightarrow> stage3_prob r \<ge> np_cut w p3 (7 / 10)) \<and>
      (final_risk_category r = Some ''Elevated'' \<longleftrightarrow>
         \<not> stage3_prob r \<ge> np_cut w p3 (7 / 10) \<and> stage3_prob r \<ge> np_cut w p3 (4 / 10)) \<and>
      (final_risk_category r = Some ''Low'' \<longleftrightarrow>
         \<not> stage3_prob r \<ge> np_cut w p3 (7 / 10) \<and> \<not> stage3_prob r \<ge> np_cut w p3 (4 / 10))"
    using final_risk_cases [of w p3] fields by (simp add: np_ge_def)
  have double: "p3 = Float64 (stage3_prob r) \<longrightarrow>
      (final_risk_category r = Some ''High'' \<longleftrightarrow> stage3_prob r \<ge> 7 / 10) \<and>
      (final_risk_category r = Some ''Elevated'' \<longleftrightarrow>
         4 / 10 \<le> stage3_prob r \<and> stage3_prob r < 7 / 10) \<and>
      (final_risk_category r = Some ''Low'' \<longleftrightarrow> stage3_prob r < 4 / 10)"
  proof
    assume "p3 = Float64 (stage3_prob r)"
    then have "np_cut w p3 (7 / 10) = 7 / 10" "np_cut w p3 (4 / 10) = 4 / 10"
      by (metis np_cut.simps(1))+
    with cuts show "(final_risk_category r = Some ''High'' \<longleftrightarrow> stage3_prob r \<ge> 7 / 10) \<and>
      (final_risk_category r = Some ''Elevated'' \<longleftrightarrow>
         4 / 10 \<le> stage3_prob r \<and> stage3_prob r < 7 / 10) \<and>
      (final_risk_category r = Some ''Low'' \<longleftrightarrow> stage3_prob r < 4 / 10)"
      by auto
  qed
  have single: "p3 = Float32 (stage3_prob r) \<longrightarrow>
      (final_risk_category r = Some ''High'' \<longleftrightarrow> stage3_prob r \<ge> w (7 / 10)) \<and>
      (final_risk_category r = Some ''Elevated'' \<longleftrightarrow>
         \<not> stage3_prob r \<ge> w (7 / 10) \<and> stage3_prob r \<ge> w (4 / 10)) \<and>
      (final_risk_category r = Some ''Low'' \<longleftrightarrow>
         \<not> stage3_prob r \<ge> w (7 / 10) \<and> \<not> stage3_prob r \<ge> w (4 / 10))"
  proof
    assume "p3 = Float32 (stage3_prob r)"
    then have "np_cut w p3 (7 / 10) = w (7 / 10)" "np_cut w p3 (4 / 10) = w (4 / 10)"
      by (metis np_cut.simps(2))+
    with cuts show "(final_risk_category r = Some ''High'' \<longleftrightarrow> stage3_prob r \<ge> w (7 / 10)) \<and>
      (final_risk_category r = Some ''Elevated'' \<longleftrightarrow>
         \<not> stage3_prob r \<ge> w (7 / 10) \<and> stage3_prob r \<ge> w (4 / 10)) \<and>
      (final_risk_category r = Some ''Low'' \<longleftrightarrow>
         \<not> stage3_prob r \<ge> w (7 / 10) \<and> \<not> stage3_prob r \<ge> w (4 / 10))"
      by simp
  qed
  have label: "final_risk_category r = Some (stage3_risk r)"
    using fields by simp
  from stages fields(2) cuts double single label same show ?thesis by blast
qed

theorem predict_final_category_witness:
  "(case snd (predict float32 (constant_store (4 / 5) (3 / 5) (7 / 10)) sample_patient) of
      Inl e \<Rightarrow> False
    | Inr r \<Rightarrow>
        final_risk_category r = Some ''High'' \<and> stage3_prob r = 7 / 10 \<and>
        stage3_risk r = ''High'' \<and>
        snd (predict float32 ((''stage3_threshold'', Document (JObj [(''threshold'', 9 / 10)]))
                        # constant_store (4 / 5) (3 / 5) (7 / 10)) sample_patient) = Inr r)"
proof -
  let ?store = "constant_store (4 / 5) (3 / 5) (7 / 10)"
  let ?other = "(''stage3_threshold'', Document (JObj [(''threshold'', 9 / 10)])) # ?store"
  have same: "\<forall>k. k \<noteq> ''stage3_threshold'' \<longrightarrow> map_of ?other k = map_of ?store k"
    by simp
  from predict_final_category [OF predict_sample_high same, of float32] show ?thesis
    by (auto simp: predict_sample_high)
qed

text \<open>
  The claim as stated fails. With NumPy 2 and a stage 3 predictor that answers in single
  precision the number nearest to 0.7, the comparison with 0.7 is made in single
  precision and holds, so the category is High, while the reported \<^verbatim>\<open>stage3_prob\<close> is
  \<open>11744051 / 2\<^sup>2\<^sup>4\<close>, which is below 0.7.
\<close>

theorem predict_final_category_counterexample:
  "float32 (7 / 10) = 11744051 / 16777216 \<and>
   snd (predict float32 single_precision_store sample_patient) =
     Inr \<lparr>final_risk_score = 11744051 / 16777216, final_risk_category = Some ''High'',
          stage1_prob = 4 / 5, stage2_prob = 3 / 5, stage3_prob = 11744051 / 16777216,
          stage1_risk = ''Elevated'', stage2_risk = ''Elevated'', stage3_risk = ''High'',
          top_factors = [(''FAQ Score: '', PInt 8), (''APOE4 Count: '', PInt 1),
                         (''pTau-217: '', PFloat (9 / 20))]\<rparr> \<and>
   (11744051 / 16777216 :: real) < 7 / 10"
  by (simp add: predict_single_precision float32_cut_points)

section \<open>Normalisers\<close>

text \<open>
  C7. \<^verbatim>\<open>preprocess_gender\<close> is idempotent on every string, number and \<^verbatim>\<open>None\<close>, and
  \<^verbatim>\<open>preprocess_apoe4\<close> gives back a numeric input: the same value in Python's sense of
  \<^verbatim>\<open>==\<close>, and the very same object unless the input is the float zero, which comes
  back as the int \<^verbatim>\<open>0\<close>.
\<close>

theorem normalisers_idempotent:
  "preprocess_gender (preprocess_gender x) = preprocess_gender x \<and>
   (is_numeric v \<longrightarrow>
      py_eq (preprocess_apoe4 v) v \<and>
      preprocess_apoe4 v = (if v = PFloat 0 then PInt 0 else v))"
  by (cases x; cases v) auto

theorem normalisers_idempotent_witness:
  "preprocess_gender (preprocess_gender (PStr ''MALE'')) = PInt 1 \<and>
   preprocess_gender (PStr ''MALE'') = PInt 1 \<and>
   is_numeric (PInt 2) \<and> preprocess_apoe4 (PInt 2) = PInt 2"
  using normalisers_idempotent [of "PStr ''MALE''" "PInt 2"]
  by (simp add: str_lower_def lower_char_def)

text \<open>
  C6, as the code has it. On a string, both APOE4 normalisers return the number of
  characters \<^verbatim>\<open>4\<close> in it: at least 0 and at most the length of the string, with no cap
  at 2. A two-allele genotype written \<^verbatim>\<open>a/b\<close> or \<^verbatim>\<open>ea/eb\<close> gives at most 2.
\<close>

theorem apoe4_count_of_string:
  "preprocess_apoe4 (PStr s) = PInt (str_count s (CHR ''4'')) \<and>
   parse_apoe4 (PStr s) = Inr (PInt (str_count s (CHR ''4''))) \<and>
   str_count s (CHR ''4'') = int (length (filter (\<lambda>c. c = CHR ''4'') s)) \<and>
   0 \<le> str_count s (CHR ''4'') \<and> str_count s (CHR ''4'') \<le> int (length s) \<and>
   str_count [a, CHR ''/'', b] (CHR ''4'') \<le> 2 \<and>
   str_count [CHR ''e'', a, CHR ''/'', CHR ''e'', b] (CHR ''4'') \<le> 2"
proof -
  have "parse_apoe4 (PStr s) = Inr (PInt (str_count s (CHR ''4'')))"
    by (cases s) (simp_all add: str_count_def)
  moreover have "str_count [a, CHR ''/'', b] (CHR ''4'') \<le> 2"
    "str_count [CHR ''e'', a, CHR ''/'', CHR ''e'', b] (CHR ''4'') \<le> 2"
    by (simp_all add: str_count_def)
  ultimately show ?thesis
    using str_count_bounds [of s "CHR ''4''"] str_count_filter [of s "CHR ''4''"] by simp
qed

text \<open>The claim as stated fails: a string with three characters \<^verbatim>\<open>4\<close> gives 3.\<close>

theorem apoe4_count_counterexample:
  "preprocess_apoe4 (PStr ''APOE4 e4/e4'') = PInt 3 \<and>
   parse_apoe4 (PStr ''APOE4 e4/e4'') = Inr (PInt 3) \<and> \<not> (3 :: int) \<le> 2"
  by (simp add: str_count_def)

section \<open>Effect on the caller's record\<close>

text \<open>
  C10, as the code has it. \<^verbatim>\<open>predict\<close> changes the caller's record at the keys
  \<^verbatim>\<open>PTGENDER\<close> and \<^verbatim>\<open>APOE4\<close> only, whether it returns or raises: both keys are set
  to the normalisers' results, an absent \<^verbatim>\<open>PTGENDER\<close> becomes 1 and an absent
  \<^verbatim>\<open>APOE4\<close> becomes 0, and every other key keeps its value (or stays absent). The
  stored \<^verbatim>\<open>APOE4\<close> is always a number. The stored \<^verbatim>\<open>PTGENDER\<close> is a number unless
  the caller supplied \<^verbatim>\<open>None\<close>, which is written back as \<^verbatim>\<open>None\<close>.
\<close>

theorem predict_frame:
  "fst (predict w arts pd) =
     pd(''PTGENDER'' \<mapsto> preprocess_gender (dict_get pd ''PTGENDER'' (PStr ''Male'')),
        ''APOE4'' \<mapsto> preprocess_apoe4 (dict_get pd ''APOE4'' (PInt 0))) \<and>
   (k \<noteq> ''PTGENDER'' \<and> k \<noteq> ''APOE4'' \<longrightarrow> fst (predict w arts pd) k = pd k) \<and>
   (pd ''PTGENDER'' = None \<longrightarrow> fst (predict w arts pd) ''PTGENDER'' = Some (PInt 1)) \<and>
   (pd ''APOE4'' = None \<longrightarrow> fst (predict w arts pd) ''APOE4'' = Some (PInt 0)) \<and>
   (\<exists>v. fst (predict w arts pd) ''APOE4'' = Some v \<and> is_numeric v) \<and>
   (pd ''PTGENDER'' \<noteq> Some PNone \<longrightarrow>
      (\<exists>v. fst (predict w arts pd) ''PTGENDER'' = Some v \<and> is_numeric v))"
proof -
  have pd': "fst (predict w arts pd) = normalise_record pd"
    by (simp add: predict_def Let_def)
  have "normalise_record pd =
     pd(''PTGENDER'' \<mapsto> preprocess_gender (dict_get pd ''PTGENDER'' (PStr ''Male'')),
        ''APOE4'' \<mapsto> preprocess_apoe4 (dict_get pd ''APOE4'' (PInt 0)))"
    by (rule ext) (simp add: normalise_record_apply)
  moreover have "pd ''PTGENDER'' \<noteq> Some PNone \<Longrightarrow>
      is_numeric (preprocess_gender (dict_get pd ''PTGENDER'' (PStr ''Male'')))"
    by (rule preprocess_gender_numeric) (auto simp: dict_get_def split: option.splits)
  ultimately show ?thesis
    unfolding pd'
    by (simp add: normalise_record_apply preprocess_apoe4_numeric dict_get_def
        str_lower_def lower_char_def)
qed

theorem predict_frame_witness:
  "''FAQ'' \<noteq> ''PTGENDER'' \<and> ''FAQ'' \<noteq> ''APOE4'' \<and>
   fst (predict float32 [] [''FAQ'' \<mapsto> PInt 3]) ''FAQ'' = Some (PInt 3) \<and>
   fst (predict float32 [] [''FAQ'' \<mapsto> PInt 3]) ''PTGENDER'' = Some (PInt 1) \<and>
   fst (predict float32 [] [''FAQ'' \<mapsto> PInt 3]) ''APOE4'' = Some (PInt 0) \<and>
   fst (predict float32 [] [''FAQ'' \<mapsto> PInt 3]) ''AGE'' = None \<and>
   sample_patient ''PTGENDER'' = Some (PStr ''Female'') \<and>
   fst (predict float32 (constant_store (4 / 5) (3 / 5) (7 / 10)) sample_patient) ''PTGENDER'' =
     Some (PInt 0) \<and>
   fst (predict float32 (constant_store (4 / 5) (3 / 5) (7 / 10))
          (sample_patient(''APOE4'' \<mapsto> PStr ''e3/e4''))) ''APOE4'' = Some (PInt 1) \<and>
   fst (predict float32 (constant_store (4 / 5) (3 / 5) (7 / 10)) sample_patient) ''NFL'' =
     Some (PFloat 22)"
  using predict_frame [of float32 "[]" "[''FAQ'' \<mapsto> PInt 3]" "''FAQ''"]
    predict_frame [of float32 "[]" "[''FAQ'' \<mapsto> PInt 3]" "''AGE''"]
    predict_frame [of float32 "constant_store (4 / 5) (3 / 5) (7 / 10)" sample_patient "''NFL''"]
    predict_frame [of float32 "constant_store (4 / 5) (3 / 5) (7 / 10)"
      "sample_patient(''APOE4'' \<mapsto> PStr ''e3/e4'')" "''NFL''"]
  by (simp add: sample_patient_def dict_get_def str_lower_def lower_char_def str_count_def)

text \<open>
  The claim as stated fails: a \<^verbatim>\<open>PTGENDER\<close> supplied as \<^verbatim>\<open>None\<close> is written back as
  \<^verbatim>\<open>None\<close>, which is not a number.
\<close>

theorem predict_frame_counterexample:
  "fst (predict float32 (constant_store (4 / 5) (3 / 5) (7 / 10)) [''PTGENDER'' \<mapsto> PNone])
     ''PTGENDER'' = Some PNone \<and>
   \<not> is_numeric PNone"
  by (simp add: predict_def normalise_record_apply dict_get_def Let_def)

section \<open>Top factors\<close>

text \<open>
  C5, as the code has it. \<^verbatim>\<open>top_factors\<close> always has the three entries FAQ, APOE4,
  pTau in this order. In \<^verbatim>\<open>predict\<close> the FAQ entry shows the record's value, or
  \<^verbatim>\<open>N/A\<close> when the key is absent from the record; the pTau entry likewise, with
  \<^verbatim>\<open>Not provided\<close>; the APOE4 entry never shows a sentinel: it shows the normalised
  count, which is 0 when the key is absent. In \<^verbatim>\<open>mock_prediction\<close> the FAQ and APOE4
  entries show the converted numbers (0 when absent), and the pTau entry shows
  \<^verbatim>\<open>Not provided\<close> exactly when the pTau value is not positive, an explicit zero
  included.
\<close>

theorem top_factors_shape:
  "(snd (predict w arts pd) = Inr r \<longrightarrow>
      top_factors r =
        [(''FAQ Score: '', case pd ''FAQ'' of None \<Rightarrow> PStr ''N/A'' | Some v \<Rightarrow> v),
         (''APOE4 Count: '', preprocess_apoe4 (dict_get pd ''APOE4'' (PInt 0))),
         (''pTau-217: '', case pd ''PTAU'' of None \<Rightarrow> PStr ''Not provided'' | Some v \<Rightarrow> v)]) \<and>
   (mock_prediction ios fos data = Inr m \<longrightarrow>
      (\<exists>faq apoe4 ptau.
         py_float fos (dict_get data ''FAQ'' (PInt 0)) = Inr faq \<and>
         py_int ios (dict_get data ''APOE4'' (PInt 0)) = Inr apoe4 \<and>
         py_float fos (dict_get data ''PTAU'' (PInt 0)) = Inr ptau \<and>
         top_factors m =
           [(''FAQ Score: '', PFloat faq),
            (''APOE4 Count: '', PInt apoe4),
            (''pTau-217: '', if ptau > 0 then PFloat ptau else PStr ''Not provided'')]))"
proof (intro conjI impI)
  assume "snd (predict w arts pd) = Inr r"
  then have "cascade w arts (normalise_record pd) = Inr r"
    by (simp add: predict_def Let_def)
  from cascade_Inr [OF this] have "top_factors r = cascade_factors (normalise_record pd)"
    by auto
  then show "top_factors r =
        [(''FAQ Score: '', case pd ''FAQ'' of None \<Rightarrow> PStr ''N/A'' | Some v \<Rightarrow> v),
         (''APOE4 Count: '', preprocess_apoe4 (dict_get pd ''APOE4'' (PInt 0))),
         (''pTau-217: '', case pd ''PTAU'' of None \<Rightarrow> PStr ''Not provided'' | Some v \<Rightarrow> v)]"
    by (simp add: cascade_factors_def dict_get_def normalise_record_apply)
next
  assume "mock_prediction ios fos data = Inr m"
  then show "\<exists>faq apoe4 ptau.
         py_float fos (dict_get data ''FAQ'' (PInt 0)) = Inr faq \<and>
         py_int ios (dict_get data ''APOE4'' (PInt 0)) = Inr apoe4 \<and>
         py_float fos (dict_get data ''PTAU'' (PInt 0)) = Inr ptau \<and>
         top_factors m =
           [(''FAQ Score: '', PFloat faq),
            (''APOE4 Count: '', PInt apoe4),
            (''pTau-217: '', if ptau > 0 then PFloat ptau else PStr ''Not provided'')]"
    unfolding mock_prediction_Inr by (auto simp: mock_result_def)
qed

theorem top_factors_shape_witness:
  "(case snd (predict float32 (constant_store (4 / 5) (3 / 5) (7 / 10)) [''FAQ'' \<mapsto> PInt 0]) of
      Inl e \<Rightarrow> False
    | Inr r \<Rightarrow>
        top_factors r = [(''FAQ Score: '', PInt 0), (''APOE4 Count: '', PInt 0),
                         (''pTau-217: '', PStr ''Not provided'')]) \<and>
   (case mock_prediction (\<lambda>s. None) (\<lambda>s. None) [''PTAU'' \<mapsto> PFloat 0] of
      Inl e \<Rightarrow> False
    | Inr m \<Rightarrow>
        top_factors m = [(''FAQ Score: '', PFloat 0), (''APOE4 Count: '', PInt 0),
                         (''pTau-217: '', PStr ''Not provided'')])"
  using top_factors_shape [of float32 "constant_store (4 / 5) (3 / 5) (7 / 10)" "[''FAQ'' \<mapsto> PInt 0]" _
      "\<lambda>s. None" "\<lambda>s. None" "[''PTAU'' \<mapsto> PFloat 0]" "mock_result 15 0 0 0"]
  by (simp add: predict_zero_faq mock_explicit_zero_ptau dict_get_def)

text \<open>
  The claim as stated fails. \<^verbatim>\<open>mock_prediction\<close> on a record whose \<^verbatim>\<open>PTAU\<close> is an
  explicit zero, and that has no \<^verbatim>\<open>FAQ\<close>, shows the sentinel for the supplied zero and
  the number 0.0 for the absent FAQ.
\<close>

theorem top_factors_counterexample:
  "[''PTAU'' \<mapsto> PFloat 0] ''PTAU'' = Some (PFloat 0) \<and>
   [''PTAU'' \<mapsto> PFloat 0] ''FAQ'' = None \<and>
   mock_prediction (\<lambda>s. None) (\<lambda>s. None) [''PTAU'' \<mapsto> PFloat 0] = Inr (mock_result 15 0 0 0) \<and>
   top_factors (mock_result 15 0 0 0) =
     [(''FAQ Score: '', PFloat 0), (''APOE4 Count: '', PInt 0),
      (''pTau-217: '', PStr ''Not provided'')]"
  by (simp add: mock_explicit_zero_ptau mock_result_def)

section \<open>Loading the artifact store\<close>

text \<open>
  C8, as the code has it. Building the store raises the no-artifacts error
  (\<^verbatim>\<open>FileNotFoundError\<close>) exactly when none of the 8 named files exists in the
  directory. When every file that exists can be loaded, building succeeds exactly when at
  least one of the 8 files exists. A file that exists and cannot be loaded makes building
  fail with the loader's own error, whatever else is present.
\<close>

theorem load_artifacts_outcome:
  "(load_artifacts fs dir = Inl FileNotFoundError \<longleftrightarrow>
      (\<forall>fname \<in> set artifact_files. fs (os_path_join dir fname) = None)) \<and>
   ((\<forall>fname \<in> set artifact_files. loadable fs dir fname) \<longrightarrow>
      ((\<exists>arts. load_artifacts fs dir = Inr arts) \<longleftrightarrow>
       (\<exists>fname \<in> set artifact_files. fs (os_path_join dir fname) \<noteq> None))) \<and>
   ((\<exists>fname \<in> set artifact_files. \<not> loadable fs dir fname) \<longrightarrow>
      load_artifacts fs dir = Inl UnpicklingError \<or> load_artifacts fs dir = Inl JSONDecodeError)"
  using load_artifacts_none [of fs dir] load_artifacts_loadable [of fs dir]
    load_artifacts_unloadable [of fs dir]
  by blast

theorem load_artifacts_outcome_witness:
  "list_all (\<lambda>fname. Map.empty (os_path_join ''models'' fname) = (None :: fs_file option)) artifact_files \<and>
   load_artifacts Map.empty ''models'' = Inl FileNotFoundError \<and>
   list_all (loadable stage1_only_files ''models'') artifact_files \<and>
   stage1_only_files (os_path_join ''models'' ''stage1_pipeline.pkl'') \<noteq> None \<and>
   load_artifacts stage1_only_files ''models'' = Inr stage1_only_store \<and>
   \<not> loadable corrupt_files ''models'' ''stage1_features.json'' \<and>
   load_artifacts corrupt_files ''models'' = Inl JSONDecodeError"
proof -
  have none: "\<forall>fname \<in> set artifact_files. Map.empty (os_path_join ''models'' fname) = (None :: fs_file option)"
    by simp
  have ok: "\<forall>fname \<in> set artifact_files. loadable stage1_only_files ''models'' fname"
    by (simp add: artifact_files_def loadable_def stage1_only_files_def os_path_join_def endswith_def)
  have there: "stage1_only_files (os_path_join ''models'' ''stage1_pipeline.pkl'') \<noteq> None"
    by (simp add: stage1_only_files_def os_path_join_def)
  have bad: "\<not> loadable corrupt_files ''models'' ''stage1_features.json''"
    by (simp add: loadable_def corrupt_files_def os_path_join_def endswith_def)
  have "load_artifacts Map.empty ''models'' = Inl FileNotFoundError"
    using load_artifacts_outcome [of Map.empty "''models''"] none by blast
  moreover have "\<exists>arts. load_artifacts stage1_only_files ''models'' = Inr arts"
    using load_artifacts_outcome [of stage1_only_files "''models''"] ok there
    by (auto simp: artifact_files_def)
  ultimately show ?thesis
    using none ok there bad
    by (simp add: list_all_iff load_stage1_only_files load_corrupt_files)
qed

text \<open>
  The claim as stated fails: one of the 8 files exists, and building the store does not
  succeed, because the file cannot be parsed.
\<close>

theorem load_artifacts_counterexample:
  "corrupt_files (os_path_join ''models'' ''stage1_features.json'') = Some Corrupt \<and>
   load_artifacts corrupt_files ''models'' = Inl JSONDecodeError"
  by (simp add: load_corrupt_files) (simp add: corrupt_files_def os_path_join_def)

section \<open>Failure of a stage\<close>

text \<open>
  C9, as the code has it. A failure at any stage ends \<^verbatim>\<open>predict\<close> with that stage's
  exception and no result: the engine catches nothing and wraps nothing. A stage whose
  predictor artifact is missing fails with \<^verbatim>\<open>KeyError\<close> on the key
  \<^verbatim>\<open>stageN_pipeline\<close>, which names the stage; a predictor that raises has its own
  exception passed on unchanged, with no stage index added.
\<close>

theorem cascade_aborts:
  "(stage1 w arts (normalise_record pd) = Inl e \<longrightarrow> snd (predict w arts pd) = Inl e) \<and>
   (stage1 w arts (normalise_record pd) = Inr (p1, r1) \<and>
    stage2 w arts (normalise_record pd) p1 = Inl e \<longrightarrow> snd (predict w arts pd) = Inl e) \<and>
   (stage1 w arts (normalise_record pd) = Inr (p1, r1) \<and>
    stage2 w arts (normalise_record pd) p1 = Inr (p2, r2) \<and>
    stage3 arts (normalise_record pd) p2 = Inl e \<longrightarrow> snd (predict w arts pd) = Inl e) \<and>
   (map_of arts ''stage1_pipeline'' = None \<and> stage1_row arts rec = Inr X1 \<longrightarrow>
      stage1 w arts rec = Inl (KeyError ''stage1_pipeline'')) \<and>
   (map_of arts ''stage2_pipeline'' = None \<longrightarrow>
      stage2 w arts rec p = Inl (KeyError ''stage2_pipeline'')) \<and>
   (map_of arts ''stage3_pipeline'' = None \<longrightarrow>
      stage3 arts rec p = Inl (KeyError ''stage3_pipeline'')) \<and>
   (map_of arts ''stage1_pipeline'' = Some (Pipeline q) \<and> stage1_row arts rec = Inr X1 \<and>
    q X1 = Inl e \<longrightarrow> stage1 w arts rec = Inl e) \<and>
   (map_of arts ''stage2_pipeline'' = Some (Pipeline q) \<and> q (stage2_row rec p) = Inl e \<longrightarrow>
      stage2 w arts rec p = Inl e) \<and>
   (map_of arts ''stage3_pipeline'' = Some (Pipeline q) \<and> q (stage3_row rec p) = Inl e \<longrightarrow>
      stage3 arts rec p = Inl e)"
  using cascade_stage1_fails [of w arts "normalise_record pd" e]
    cascade_stage2_fails [of w arts "normalise_record pd" p1 r1 e]
    cascade_stage3_fails [of w arts "normalise_record pd" p1 r1 p2 r2 e]
    stage1_missing [where arts = arts and pd = rec and ?X1.0 = X1 and w = w]
    stage2_missing [where arts = arts and pd = rec and p = p and w = w]
    stage3_missing [of arts rec p]
    stage1_raises [where arts = arts and q = q and pd = rec and ?X1.0 = X1 and e = e and w = w]
    stage2_raises [where arts = arts and q = q and pd = rec and p = p and e = e and w = w]
    stage3_raises [of arts q rec p e]
  by (simp add: predict_snd)

theorem cascade_aborts_witness:
  "load_artifacts stage1_only_files ''models'' = Inr stage1_only_store \<and>
   stage1 float32 stage1_only_store (normalise_record sample_patient) = Inr (Float64 (4 / 5), ''Elevated'') \<and>
   map_of stage1_only_store ''stage2_pipeline'' = None \<and>
   stage2 float32 stage1_only_store (normalise_record sample_patient) (Float64 (4 / 5)) =
     Inl (KeyError ''stage2_pipeline'') \<and>
   snd (predict float32 stage1_only_store sample_patient) = Inl (KeyError ''stage2_pipeline'') \<and>
   stage1 float32 failing_store_1 (normalise_record sample_patient) =
     Inl (PredictorRaised ''shape mismatch'') \<and>
   snd (predict float32 failing_store_1 sample_patient) = Inl (PredictorRaised ''shape mismatch'')"
proof -
  have absent: "map_of stage1_only_store ''stage2_pipeline'' = None"
    by (simp add: stage1_only_store_def)
  have stage2: "stage2 float32 stage1_only_store (normalise_record sample_patient) (Float64 (4 / 5)) =
      Inl (KeyError ''stage2_pipeline'')"
    using absent
      cascade_aborts [where w = float32 and arts = stage1_only_store and rec = "normalise_record sample_patient"
        and p = "Float64 (4 / 5)"]
    by blast
  have "snd (predict float32 stage1_only_store sample_patient) = Inl (KeyError ''stage2_pipeline'')"
    using stage1_only_stage1 stage2
      cascade_aborts [where w = float32 and arts = stage1_only_store and pd = sample_patient
        and e = "KeyError ''stage2_pipeline''" and ?p1.0 = "Float64 (4 / 5)" and ?r1.0 = "''Elevated''"]
    by blast
  moreover have "snd (predict float32 failing_store_1 sample_patient) =
      Inl (PredictorRaised ''shape mismatch'')"
    using failing_store_1_stage1
      cascade_aborts [where w = float32 and arts = failing_store_1 and pd = sample_patient
        and e = "PredictorRaised ''shape mismatch''"]
    by blast
  ultimately show ?thesis
    using absent stage2 stage1_only_stage1 failing_store_1_stage1 load_stage1_only_files
    by simp
qed

text \<open>
  The claim as stated fails: the exception \<^verbatim>\<open>predict\<close> raises does not tell which stage
  failed. The same exception value comes out when stage 1 fails and when stage 1 succeeds
  and stage 2 fails.
\<close>

theorem cascade_error_counterexample:
  "stage1 float32 failing_store_1 (normalise_record sample_patient) =
     Inl (PredictorRaised ''shape mismatch'') \<and>
   snd (predict float32 failing_store_1 sample_patient) = Inl (PredictorRaised ''shape mismatch'') \<and>
   stage1 float32 failing_store_2 (normalise_record sample_patient) = Inr (Float64 (4 / 5), ''Elevated'') \<and>
   stage2 float32 failing_store_2 (normalise_record sample_patient) (Float64 (4 / 5)) =
     Inl (PredictorRaised ''shape mismatch'') \<and>
   snd (predict float32 failing_store_2 sample_patient) = Inl (PredictorRaised ''shape mismatch'')"
  by (simp add: predict_snd cascade_def failing_store_1_stage1 failing_store_2_stage1
      failing_store_2_stage2)

section \<open>Absent fields\<close>

text \<open>
  C3, as the code has it. A field that is absent from the record is 0 in the stage
  feature rows, except \<^verbatim>\<open>PTGENDER\<close>, whose absence stands for \<^verbatim>\<open>'Male'\<close> and gives 1;
  this holds for every name of the stage 1 feature list, for \<^verbatim>\<open>APOE4\<close> in the stage 2
  row and for the four biomarkers of the stage 3 row. A field that is present with the
  value \<^verbatim>\<open>None\<close> is 0 only if it is \<^verbatim>\<open>APOE4\<close>; any other such field reaches the
  predictor as \<^verbatim>\<open>None\<close>, in the stage 1 row and, for the four biomarkers, in the
  stage 3 row. Building the rows never raises: when the three predictors are
  loaded and accept every row, \<^verbatim>\<open>predict\<close> returns a result for every record.
\<close>

theorem absent_fields_default:
  "(pd f = None \<and>
    artifact_features arts ''stage1_features'' stage1_default_features = Inr features \<and>
    f \<in> set features \<longrightarrow>
      (\<exists>X1. stage1_row arts (normalise_record pd) = Inr X1 \<and>
            map_of X1 f = Some (PInt (if f = ''PTGENDER'' then 1 else 0)))) \<and>
   (pd ''APOE4'' = None \<or> pd ''APOE4'' = Some PNone \<longrightarrow>
      map_of (stage2_row (normalise_record pd) p1) ''APOE4'' = Some (PInt 0)) \<and>
   (pd f = None \<and> f \<in> set [''PTAU'', ''ABETA42'', ''ABETA40'', ''NFL''] \<longrightarrow>
      map_of (stage3_row (normalise_record pd) p2) f = Some (PInt 0)) \<and>
   (pd f = Some PNone \<and> f \<noteq> ''APOE4'' \<and> f \<in> set features \<longrightarrow>
      map_of (build_row (normalise_record pd) features) f = Some PNone) \<and>
   (pd f = Some PNone \<and> f \<noteq> ''APOE4'' \<and>
    artifact_features arts ''stage1_features'' stage1_default_features = Inr features \<and>
    f \<in> set features \<longrightarrow>
      (\<exists>X1. stage1_row arts (normalise_record pd) = Inr X1 \<and> map_of X1 f = Some PNone)) \<and>
   (pd f = Some PNone \<and> f \<in> set [''PTAU'', ''ABETA42'', ''ABETA40'', ''NFL''] \<longrightarrow>
      map_of (stage3_row (normalise_record pd) p2) f = Some PNone) \<and>
   (map_of arts ''stage1_pipeline'' = Some (Pipeline q1) \<and>
    map_of arts ''stage2_pipeline'' = Some (Pipeline q2) \<and>
    map_of arts ''stage3_pipeline'' = Some (Pipeline q3) \<and>
    (\<forall>X. \<exists>p. q1 X = Inr p) \<and> (\<forall>X. \<exists>p. q2 X = Inr p) \<and> (\<forall>X. \<exists>p. q3 X = Inr p) \<and>
    artifact_features arts ''stage1_features'' stage1_default_features = Inr features \<and>
    artifact_threshold arts ''stage1_threshold'' = Inr t1 \<and>
    artifact_threshold arts ''stage2_threshold'' = Inr t2 \<longrightarrow>
      (\<exists>r. snd (predict w arts pd) = Inr r))"
  using stage1_row_absent [of pd f arts features] stage2_row_apoe4 [of pd p1]
    stage3_row_absent [of pd f p2] build_row_null [of pd f features]
    stage1_row_null [of pd f arts features] stage3_row_null [of pd f p2]
    predict_total [where arts = arts and ?q1.0 = q1 and ?q2.0 = q2 and ?q3.0 = q3
      and features = features and ?t1.0 = t1 and ?t2.0 = t2 and w = w and pd = pd]
  by blast

theorem absent_fields_default_witness:
  "(\<exists>X1. stage1_row (constant_store (4 / 5) (3 / 5) (7 / 10)) (normalise_record Map.empty) = Inr X1 \<and>
         map_of X1 ''FAQ'' = Some (PInt 0)) \<and>
   (\<exists>X1. stage1_row (constant_store (4 / 5) (3 / 5) (7 / 10)) (normalise_record Map.empty) = Inr X1 \<and>
         map_of X1 ''PTGENDER'' = Some (PInt 1)) \<and>
   map_of (stage2_row (normalise_record Map.empty) (Float64 (4 / 5))) ''APOE4'' = Some (PInt 0) \<and>
   map_of (stage3_row (normalise_record Map.empty) (Float64 (3 / 5))) ''PTAU'' = Some (PInt 0) \<and>
   map_of (build_row (normalise_record [''FAQ'' \<mapsto> PNone]) stage1_default_features) ''FAQ'' =
     Some PNone \<and>
   (\<exists>X1. stage1_row (constant_store (4 / 5) (3 / 5) (7 / 10))
           (normalise_record [''FAQ'' \<mapsto> PNone]) = Inr X1 \<and>
         map_of X1 ''FAQ'' = Some PNone) \<and>
   map_of (stage3_row (normalise_record [''PTAU'' \<mapsto> PNone]) (Float64 (3 / 5))) ''PTAU'' =
     Some PNone \<and>
   (\<exists>r. snd (predict float32 (constant_store (4 / 5) (3 / 5) (7 / 10)) Map.empty) = Inr r)"
proof -
  let ?store = "constant_store (4 / 5) (3 / 5) (7 / 10)"
  note feat = constant_store_features [of "4 / 5" "3 / 5" "7 / 10"]
  have faq: "\<exists>X1. stage1_row ?store (normalise_record Map.empty) = Inr X1 \<and>
      map_of X1 ''FAQ'' = Some (PInt 0)"
    using feat
      absent_fields_default [where pd = Map.empty and f = "''FAQ''" and arts = ?store
        and features = stage1_default_features]
    by (simp add: stage1_default_features_def)
  have gender: "\<exists>X1. stage1_row ?store (normalise_record Map.empty) = Inr X1 \<and>
      map_of X1 ''PTGENDER'' = Some (PInt 1)"
    using feat
      absent_fields_default [where pd = Map.empty and f = "''PTGENDER''" and arts = ?store
        and features = stage1_default_features]
    by (simp add: stage1_default_features_def)
  have rows: "map_of (stage2_row (normalise_record Map.empty) (Float64 (4 / 5))) ''APOE4'' = Some (PInt 0)"
    "map_of (stage3_row (normalise_record Map.empty) (Float64 (3 / 5))) ''PTAU'' = Some (PInt 0)"
    using absent_fields_default [where pd = Map.empty and f = "''PTAU''" and ?p1.0 = "Float64 (4 / 5)"
        and ?p2.0 = "Float64 (3 / 5)"]
    by simp_all
  have null: "map_of (build_row (normalise_record [''FAQ'' \<mapsto> PNone]) stage1_default_features)
      ''FAQ'' = Some PNone"
    using absent_fields_default [where pd = "[''FAQ'' \<mapsto> PNone]" and f = "''FAQ''"
        and features = stage1_default_features]
    by (simp add: stage1_default_features_def)
  have accept: "\<forall>X :: feature_row. \<exists>p. (Inr (Float64 (4 / 5)) :: py_error + np_scalar) = Inr p"
    "\<forall>X :: feature_row. \<exists>p. (Inr (Float64 (3 / 5)) :: py_error + np_scalar) = Inr p"
    "\<forall>X :: feature_row. \<exists>p. (Inr (Float64 (7 / 10)) :: py_error + np_scalar) = Inr p"
    by blast+
  have total: "\<exists>r. snd (predict float32 ?store Map.empty) = Inr r"
    using feat constant_store_thresholds [of "4 / 5" "3 / 5" "7 / 10"]
      constant_store_pipelines [of "4 / 5" "3 / 5" "7 / 10"] accept
      absent_fields_default [where w = float32 and arts = ?store and pd = Map.empty
        and ?q1.0 = "\<lambda>X. Inr (Float64 (4 / 5))" and ?q2.0 = "\<lambda>X. Inr (Float64 (3 / 5))" and ?q3.0 = "\<lambda>X. Inr (Float64 (7 / 10))"
        and features = stage1_default_features and ?t1.0 = "5 / 10" and ?t2.0 = "5 / 10"]
    by blast
  have null1: "\<exists>X1. stage1_row ?store (normalise_record [''FAQ'' \<mapsto> PNone]) = Inr X1 \<and>
      map_of X1 ''FAQ'' = Some PNone"
    using feat
      absent_fields_default [where pd = "[''FAQ'' \<mapsto> PNone]" and f = "''FAQ''" and arts = ?store
        and features = stage1_default_features]
    by (simp add: stage1_default_features_def)
  have null3: "map_of (stage3_row (normalise_record [''PTAU'' \<mapsto> PNone]) (Float64 (3 / 5)))
      ''PTAU'' = Some PNone"
    using absent_fields_default [where pd = "[''PTAU'' \<mapsto> PNone]" and f = "''PTAU''"
        and ?p2.0 = "Float64 (3 / 5)"]
    by simp
  from faq gender rows null null1 null3 total show ?thesis by blast
qed

text \<open>
  The claim as stated fails. With no field at all, the stage 1 row has 1 for
  \<^verbatim>\<open>PTGENDER\<close>, not 0; and a \<^verbatim>\<open>FAQ\<close> that is present as \<^verbatim>\<open>None\<close> stays \<^verbatim>\<open>None\<close> in
  the row.
\<close>

theorem absent_fields_counterexample:
  "(Map.empty :: patient) ''PTGENDER'' = None \<and>
   stage1_row [] (normalise_record Map.empty) =
     Inr [(''AGE'', PInt 0), (''PTGENDER'', PInt 1), (''PTEDUCAT'', PInt 0), (''FAQ'', PInt 0),
          (''EcogPtMem'', PInt 0), (''EcogPtTotal'', PInt 0)] \<and>
   [''FAQ'' \<mapsto> PNone] ''FAQ'' = Some PNone \<and>
   stage1_row [] (normalise_record [''FAQ'' \<mapsto> PNone]) =
     Inr [(''AGE'', PInt 0), (''PTGENDER'', PInt 1), (''PTEDUCAT'', PInt 0), (''FAQ'', PNone),
          (''EcogPtMem'', PInt 0), (''EcogPtTotal'', PInt 0)]"
  by (simp add: empty_record_row null_faq_row)

section \<open>Range of the stage probabilities\<close>

text \<open>
  C4, as the code has it. When \<^verbatim>\<open>predict\<close> returns and every loaded predictor gives
  probabilities in \<open>[0, 1]\<close>, the three stage probabilities lie in \<open>[0, 1]\<close>. The
  fallback predictor's three probabilities are at most 1 for all inputs; they are at
  least 0 when FAQ is not negative, EcogPtMem is at least 1 and the APOE4 count is not
  negative. There is no lower clamp, so other inputs can give negative values.
\<close>

theorem stage_probabilities_bounded:
  "(snd (predict w arts pd) = Inr r \<and>
    (\<forall>k q X p. map_of arts k = Some (Pipeline q) \<and> q X = Inr p \<longrightarrow>
       0 \<le> np_value p \<and> np_value p \<le> 1) \<longrightarrow>
      0 \<le> stage1_prob r \<and> stage1_prob r \<le> 1 \<and> 0 \<le> stage2_prob r \<and> stage2_prob r \<le> 1 \<and>
      0 \<le> stage3_prob r \<and> stage3_prob r \<le> 1) \<and>
   (mock_prediction ios fos data = Inr m \<longrightarrow>
      stage1_prob m \<le> 1 \<and> stage2_prob m \<le> 1 \<and> stage3_prob m \<le> 1) \<and>
   (mock_prediction ios fos data = Inr m \<and>
    py_float fos (dict_get data ''FAQ'' (PInt 0)) = Inr faq \<and> 0 \<le> faq \<and>
    py_float fos (dict_get data ''EcogPtMem'' (PInt 1)) = Inr ecog \<and> 1 \<le> ecog \<and>
    py_int ios (dict_get data ''APOE4'' (PInt 0)) = Inr apoe4 \<and> 0 \<le> apoe4 \<longrightarrow>
      0 \<le> stage1_prob m \<and> 0 \<le> stage2_prob m \<and> 0 \<le> stage3_prob m)"
proof -
  have real_engine: "snd (predict w arts pd) = Inr r \<and>
    (\<forall>k q X p. map_of arts k = Some (Pipeline q) \<and> q X = Inr p \<longrightarrow>
       0 \<le> np_value p \<and> np_value p \<le> 1) \<longrightarrow>
      0 \<le> stage1_prob r \<and> stage1_prob r \<le> 1 \<and> 0 \<le> stage2_prob r \<and> stage2_prob r \<le> 1 \<and>
      0 \<le> stage3_prob r \<and> stage3_prob r \<le> 1"
    using predict_probs_bounded [of w arts pd r] by blast
  have upper: "stage1_prob m \<le> 1 \<and> stage2_prob m \<le> 1 \<and> stage3_prob m \<le> 1"
    if "mock_prediction ios fos data = Inr m"
  proof -
    from that obtain age faq ecog apoe4 ptau where
      "m = mock_result (mock_score age faq ecog apoe4 ptau) faq apoe4 ptau"
      unfolding mock_prediction_Inr by blast
    then show ?thesis
      using mock_result_upper [OF mock_score_le] by simp
  qed
  have lower: "0 \<le> stage1_prob m \<and> 0 \<le> stage2_prob m \<and> 0 \<le> stage3_prob m"
    if a: "mock_prediction ios fos data = Inr m \<and>
      py_float fos (dict_get data ''FAQ'' (PInt 0)) = Inr faq \<and> 0 \<le> faq \<and>
      py_float fos (dict_get data ''EcogPtMem'' (PInt 1)) = Inr ecog \<and> 1 \<le> ecog \<and>
      py_int ios (dict_get data ''APOE4'' (PInt 0)) = Inr apoe4 \<and> 0 \<le> apoe4"
  proof -
    from a obtain age ptau where
      "m = mock_result (mock_score age faq ecog apoe4 ptau) faq apoe4 ptau"
      unfolding mock_prediction_Inr by auto
    moreover have "0 \<le> mock_score age faq ecog apoe4 ptau"
      using a by (simp add: mock_score_nonneg)
    ultimately show ?thesis
      using mock_result_lower by simp
  qed
  from real_engine upper lower show ?thesis by blast
qed

theorem stage_probabilities_bounded_witness:
  "(case snd (predict float32 (constant_store (4 / 5) (3 / 5) (7 / 10)) sample_patient) of
      Inl e \<Rightarrow> False
    | Inr r \<Rightarrow> stage1_prob r = 4 / 5 \<and> 0 \<le> stage1_prob r \<and> stage1_prob r \<le> 1 \<and>
               0 \<le> stage2_prob r \<and> stage2_prob r \<le> 1 \<and>
               0 \<le> stage3_prob r \<and> stage3_prob r \<le> 1) \<and>
   (case mock_prediction (\<lambda>s. None) (\<lambda>s. None) fallback_scenario of
      Inl e \<Rightarrow> False
    | Inr m \<Rightarrow> 0 \<le> stage1_prob m \<and> stage1_prob m \<le> 1 \<and> 0 \<le> stage2_prob m \<and>
               stage2_prob m \<le> 1 \<and> 0 \<le> stage3_prob m \<and> stage3_prob m \<le> 1)"
proof -
  let ?store = "constant_store (4 / 5) (3 / 5) (7 / 10)"
  have unit: "\<forall>k q X p. map_of ?store k = Some (Pipeline q) \<and> q X = Inr p \<longrightarrow>
      0 \<le> np_value p \<and> np_value p \<le> 1"
    by (auto simp: constant_store_def split: if_splits)
  have conv: "py_float (\<lambda>s. None) (dict_get fallback_scenario ''FAQ'' (PInt 0)) = Inr 10"
    "py_float (\<lambda>s. None) (dict_get fallback_scenario ''EcogPtMem'' (PInt 1)) = Inr 2"
    "py_int (\<lambda>s. None) (dict_get fallback_scenario ''APOE4'' (PInt 0)) = Inr 2"
    by (simp_all add: fallback_scenario_def dict_get_def)
  note bounded =
    stage_probabilities_bounded [where w = float32 and arts = ?store and pd = sample_patient
      and ios = "\<lambda>s. None" and fos = "\<lambda>s. None" and data = fallback_scenario
      and m = "mock_result 100 10 2 (7 / 10)" and faq = 10 and ecog = 2 and ?apoe4.0 = 2]
  show ?thesis
    using bounded unit conv
    by (simp add: predict_sample_high mock_scenario)
qed

text \<open>
  The claim as stated fails for the fallback predictor: with FAQ \<open>-20\<close> and nothing
  else, the score is \<open>-15\<close> and the stage 3 probability is \<open>-0.15\<close>.
\<close>

theorem stage_probabilities_counterexample:
  "mock_prediction (\<lambda>s. None) (\<lambda>s. None) [''FAQ'' \<mapsto> PFloat (- 20)] =
     Inr (mock_result (- 15) (- 20) 0 0) \<and>
   stage3_prob (mock_result (- 15) (- 20) 0 0) = - 15 / 100 \<and>
   stage3_prob (mock_result (- 15) (- 20) 0 0) < 0"
  by (simp add: mock_negative_faq) (simp add: mock_result_def)

section \<open>The fallback score\<close>




end
